theory Spec2Isabelle
  imports Complex_Main
begin

section \<open>JavaScript numbers\<close>

text \<open>
  A JavaScript number is an IEEE double: a finite value, one of the two infinities, or NaN.
  Every finite double is a rational number, and the constants the pipeline compares scores
  with (4.5, 3.5, 2.5) are doubles, so the comparisons below are exact. A value that is
  \<^verbatim>\<open>undefined\<close> converts to NaN when it is compared with a number.
\<close>

datatype jsnum = Fin rat | PosInf | NegInf | NaN

fun js_ge :: "jsnum \<Rightarrow> rat \<Rightarrow> bool" where
  "js_ge (Fin x) c = (c \<le> x)"
| "js_ge PosInf c = True"
| "js_ge NegInf c = False"
| "js_ge NaN c = False"

fun js_lt :: "jsnum \<Rightarrow> rat \<Rightarrow> bool" where
  "js_lt (Fin x) c = (x < c)"
| "js_lt PosInf c = False"
| "js_lt NegInf c = True"
| "js_lt NaN c = False"

fun to_number :: "jsnum option \<Rightarrow> jsnum" where
  "to_number None = NaN"
| "to_number (Some n) = n"

text \<open>
  Sums and products of doubles are computed on the exact rational values; the rounding of
  IEEE arithmetic is left out. The special values follow IEEE 754.
\<close>

fun js_add :: "jsnum \<Rightarrow> jsnum \<Rightarrow> jsnum" where
  "js_add NaN _ = NaN"
| "js_add _ NaN = NaN"
| "js_add (Fin x) (Fin y) = Fin (x + y)"
| "js_add PosInf NegInf = NaN"
| "js_add NegInf PosInf = NaN"
| "js_add PosInf _ = PosInf"
| "js_add _ PosInf = PosInf"
| "js_add NegInf _ = NegInf"
| "js_add _ NegInf = NegInf"

fun js_sign :: "jsnum \<Rightarrow> int" where
  "js_sign (Fin x) = (if x < 0 then - 1 else if x = 0 then 0 else 1)"
| "js_sign PosInf = 1"
| "js_sign NegInf = - 1"
| "js_sign NaN = 0"

fun js_mul :: "jsnum \<Rightarrow> jsnum \<Rightarrow> jsnum" where
  "js_mul NaN _ = NaN"
| "js_mul _ NaN = NaN"
| "js_mul (Fin x) (Fin y) = Fin (x * y)"
| "js_mul a b =
     (if js_sign a * js_sign b = 0 then NaN
      else if js_sign a * js_sign b < 0 then NegInf else PosInf)"

text \<open>\<^verbatim>\<open>!x\<close> for a number that may be absent: undefined, 0 and NaN are falsy.\<close>

fun js_falsy_num :: "jsnum option \<Rightarrow> bool" where
  "js_falsy_num None = True"
| "js_falsy_num (Some (Fin x)) = (x = 0)"
| "js_falsy_num (Some NaN) = True"
| "js_falsy_num (Some _) = False"

section \<open>Errors, validation results and stage results\<close>

text \<open>A thrown \<^verbatim>\<open>Error\<close>, with its message.\<close>

datatype error = Error string

fun error_message :: "error \<Rightarrow> string" where
  "error_message (Error m) = m"

text \<open>What \<^verbatim>\<open>validateAgainstSchema\<close> returns: Ajv's verdict and its error objects.\<close>

record validation_error =
  instancePath :: string
  keyword :: string
  verr_message :: string

record validation =
  valid :: bool
  verrors :: "validation_error list"

datatype status = Success | Warning | Failed | Skipped

record stage_error =
  code :: string
  err_message :: string
  recoverable :: bool

record metrics =
  tokens_input :: nat
  tokens_output :: nat
  api_calls :: "nat option"
  improvements_made :: "nat option"

text \<open>
  The object every stage returns. Timing (\<^verbatim>\<open>duration_ms\<close>) and the stage's log lines are
  left out; \<^verbatim>\<open>metrics\<close>, \<^verbatim>\<open>warnings\<close> and \<^verbatim>\<open>data\<close> are absent from some results.
\<close>

record 'd stage_result =
  status :: status
  artifacts :: "string list"
  errors :: "stage_error list"
  metrics :: "metrics option"
  warnings :: "string list option"
  data :: "'d option"

text \<open>The reply of \<^verbatim>\<open>anthropic.messages.create\<close>: token usage and the text of the first block.\<close>

record api_message =
  input_tokens :: nat
  output_tokens :: nat
  response_text :: string

section \<open>JSON values and the brand specification\<close>

text \<open>A value read from JSON, or \<^verbatim>\<open>undefined\<close> for a property that is absent.\<close>

datatype jsval =
  Undefined | Null | JBool bool | JNum rat | JStr string
  | JArray "jsval list" | JObject "(string \<times> jsval) list"

fun truthy :: "jsval \<Rightarrow> bool" where
  "truthy Undefined = False"
| "truthy Null = False"
| "truthy (JBool b) = b"
| "truthy (JNum x) = (x \<noteq> 0)"
| "truthy (JStr s) = (s \<noteq> [])"
| "truthy (JArray _) = True"
| "truthy (JObject _) = True"

text \<open>One entry of \<^verbatim>\<open>brand_spec.components\<close>.\<close>

record component =
  comp_name :: jsval
  category :: jsval
  description :: jsval
  visual_properties :: jsval
  states :: jsval
  usage_rules :: jsval
  example_html :: jsval

text \<open>
  The brand specification: its component list, and the rest of the document (metadata,
  brand essence, design tokens, patterns, accessibility, notes) as one opaque part.
\<close>

record 'r brand_spec =
  components :: "component list"
  rest :: 'r

section \<open>Stage 4: Evaluate\<close>

record dimension =
  dim_name :: string
  display_name :: string
  dim_score :: jsnum
  dim_weight :: jsnum
  justification :: string

record recommendation =
  priority :: string
  rec_dimension :: string
  issue :: string
  suggestion :: string

text \<open>The JSON the evaluation model replied with, after \<^verbatim>\<open>extractJSONFromResponse\<close>.\<close>

record evaluation_data =
  reply_overall_score :: "jsnum option"
  reply_quality_band :: "string option"
  reply_dimensions :: "dimension list option"
  reply_recommendations :: "recommendation list option"

text \<open>The evaluation object the stage builds (the constant version fields are left out).\<close>

record evaluation =
  overall_score :: "jsnum option"
  quality_band :: string
  dimensions :: "dimension list option"
  recommendations :: "recommendation list option"
  tokens_used :: nat

text \<open>\<^verbatim>\<open>getQualityBand(score)\<close> of evaluate.js.\<close>

definition getQualityBand :: "jsnum \<Rightarrow> string" where
  "getQualityBand score =
     (if js_ge score (9/2) then ''excellent''
      else if js_ge score (7/2) then ''good''
      else if js_ge score (5/2) then ''acceptable''
      else ''poor'')"

text \<open>
  \<^verbatim>\<open>fixEvaluationIssues(evaluation, errors, logger)\<close>: for each validation error, add the
  rubric dimensions that are missing when the error is \<^verbatim>\<open>minItems\<close> at \<^verbatim>\<open>/dimensions\<close>, and
  recompute a falsy overall score from the dimensions. The quality band is not written.
\<close>

definition requiredDimensions :: "(string \<times> string \<times> rat) list" where
  "requiredDimensions =
     [(''brand_fidelity'', ''Brand Fidelity'', 4/10),
      (''completeness'', ''Completeness'', 2/10),
      (''parseability'', ''Parseability'', 15/100),
      (''actionability'', ''Actionability'', 15/100),
      (''accessibility'', ''Accessibility'', 5/100),
      (''insight_depth'', ''Insight Depth'', 5/100)]"

definition add_missing_dimension :: "dimension list \<Rightarrow> string \<times> string \<times> rat \<Rightarrow> dimension list" where
  "add_missing_dimension ds rd =
     (case rd of (n, dn, w) \<Rightarrow>
        (case find (\<lambda>d. dim_name d = n) ds of
           Some _ \<Rightarrow> ds
         | None \<Rightarrow> ds @ [\<lparr>dim_name = n, display_name = dn, dim_score = Fin 3, dim_weight = Fin w,
                           justification = ''Dimension not evaluated''\<rparr>]))"

definition weighted_sum :: "dimension list \<Rightarrow> jsnum" where
  "weighted_sum ds = foldl (\<lambda>acc d. js_add acc (js_mul (dim_score d) (dim_weight d))) (Fin 0) ds"

definition fixEvaluationIssue :: "evaluation \<Rightarrow> validation_error \<Rightarrow> evaluation" where
  "fixEvaluationIssue ev err =
     (let ev1 =
        (if instancePath err = ''/dimensions'' \<and> keyword err = ''minItems''
         then ev\<lparr>dimensions :=
                Some (foldl add_missing_dimension
                        (case dimensions ev of None \<Rightarrow> [] | Some ds \<Rightarrow> ds) requiredDimensions)\<rparr>
         else ev)
      in (case dimensions ev1 of
            Some ds \<Rightarrow>
              (if js_falsy_num (overall_score ev1)
               then ev1\<lparr>overall_score := Some (weighted_sum ds)\<rparr> else ev1)
          | None \<Rightarrow> ev1))"

definition fixEvaluationIssues :: "evaluation \<Rightarrow> validation_error list \<Rightarrow> evaluation" where
  "fixEvaluationIssues ev errs = foldl fixEvaluationIssue ev errs"

section \<open>The external collaborators\<close>

text \<open>
  Everything the pipeline obtains from outside: the file system, the browser, the model
  API, the JSON parser and the Ajv validator. A call that can throw yields \<open>Inl\<close> of the
  error (or \<open>Some\<close> of it, when it returns nothing). The capture and analysis stages are
  taken whole, as the stage result they return; \<open>map_tokens\<close> is the construction of the
  specification from the brand tokens at the head of \<^verbatim>\<open>synthesizeBrandSpec\<close>, with the warnings
  it pushes; a specification handed from one stage to the next is the \<^verbatim>\<open>data\<close> of a stage
  result and may be absent; \<open>toFixed2\<close> is \<^verbatim>\<open>Number.prototype.toFixed(2)\<close>; \<open>brandId\<close> is the
  identifier built from the host name, the date and a UUID.
\<close>

record ('cap, 'tok, 'r) world =
  brandId :: string
  createBrandDirectories :: "error option"
  captureWebsite :: "error + 'cap stage_result"
  analyzeWithClaude :: "'cap option \<Rightarrow> error + 'tok stage_result"
  map_tokens :: "'tok option \<Rightarrow> string list \<times> (error + 'r brand_spec)"
  validateBrandSpec :: "'r brand_spec \<Rightarrow> error + validation"
  save_brand_spec :: "'r brand_spec \<Rightarrow> error option"
  new_anthropic :: "error option"
  evaluate_call :: "'r brand_spec option \<Rightarrow> error + api_message"
  parse_evaluation :: "string \<Rightarrow> error + evaluation_data"
  validateEvaluation :: "evaluation \<Rightarrow> error + validation"
  save_evaluation :: "evaluation \<Rightarrow> error option"
  refine_call :: "'r brand_spec option \<Rightarrow> evaluation \<Rightarrow> error + api_message"
  parse_spec :: "string \<Rightarrow> error + 'r brand_spec"
  countImprovements :: "'r brand_spec option \<Rightarrow> 'r brand_spec \<Rightarrow> nat"
  save_trace :: "error option"
  save_metadata :: "error option"
  toFixed2 :: "jsnum \<Rightarrow> string"

text \<open>
  \<^verbatim>\<open>evaluateBrandSpec(brandSpec, paths, config)\<close>. The client is constructed before the
  \<^verbatim>\<open>try\<close>, so its error leaves the function; every later error is caught and gives a
  failed stage result with the tokens counted so far.
\<close>

definition evaluate_failed :: "error \<Rightarrow> nat \<Rightarrow> nat \<Rightarrow> evaluation stage_result" where
  "evaluate_failed e tin tout =
     \<lparr>status = Failed, artifacts = [],
      errors = [\<lparr>code = ''EVALUATION_ERROR'', err_message = error_message e, recoverable = False\<rparr>],
      metrics = Some \<lparr>tokens_input = tin, tokens_output = tout, api_calls = Some 1, improvements_made = None\<rparr>,
      warnings = None, data = None\<rparr>"

definition build_evaluation :: "evaluation_data \<Rightarrow> nat \<Rightarrow> evaluation" where
  "build_evaluation evaluationData used =
     \<lparr>overall_score = reply_overall_score evaluationData,
      quality_band = getQualityBand (to_number (reply_overall_score evaluationData)),
      dimensions = reply_dimensions evaluationData,
      recommendations = reply_recommendations evaluationData,
      tokens_used = used\<rparr>"

definition evaluateBrandSpec ::
  "('cap, 'tok, 'r) world \<Rightarrow> 'r brand_spec option \<Rightarrow> error + evaluation stage_result" where
  "evaluateBrandSpec w brandSpec =
     (case new_anthropic w of
        Some e \<Rightarrow> Inl e
      | None \<Rightarrow> Inr
         (case evaluate_call w brandSpec of
            Inl e \<Rightarrow> evaluate_failed e 0 0
          | Inr msg \<Rightarrow>
             (let tin = input_tokens msg; tout = output_tokens msg in
              case parse_evaluation w (response_text msg) of
                Inl e \<Rightarrow> evaluate_failed e tin tout
              | Inr evaluationData \<Rightarrow>
                 (let ev = build_evaluation evaluationData (tin + tout) in
                  if brandSpec = None
                  then evaluate_failed (Error ''Cannot read properties of undefined'') tin tout
                  else
                  case validateEvaluation w ev of
                    Inl e \<Rightarrow> evaluate_failed e tin tout
                  | Inr v \<Rightarrow>
                     (let ev' = (if valid v then ev else fixEvaluationIssues ev (verrors v)) in
                      case (if valid v then Inr v else validateEvaluation w ev') of
                        Inl e \<Rightarrow> evaluate_failed e tin tout
                      | Inr _ \<Rightarrow>
                         (case save_evaluation w ev' of
                            Some e \<Rightarrow> evaluate_failed e tin tout
                          | None \<Rightarrow>
                             \<lparr>status = Success, artifacts = [''evaluation.json''], errors = [],
                              metrics = Some \<lparr>tokens_input = tin, tokens_output = tout,
                                               api_calls = Some 1, improvements_made = None\<rparr>,
                              warnings = None, data = Some ev'\<rparr>))))))"

section \<open>Strings\<close>

text \<open>Decimal digits: \<^verbatim>\<open>Number.prototype.toString()\<close> on a natural number, and \<^verbatim>\<open>parseInt\<close> on digits.\<close>

definition digit_char :: "nat \<Rightarrow> char" where
  "digit_char d = char_of (48 + d)"

definition is_digit :: "char \<Rightarrow> bool" where
  "is_digit c = (48 \<le> (of_char c :: nat) \<and> (of_char c :: nat) \<le> 57)"

definition digit_val :: "char \<Rightarrow> nat" where
  "digit_val c = of_char c - 48"

function toString :: "nat \<Rightarrow> string" where
  "toString n = (if n < 10 then [digit_char n] else toString (n div 10) @ [digit_char (n mod 10)])"
  by pat_completeness auto
termination
  by (relation "measure id") auto

declare toString.simps [simp del]

definition parseInt :: "string \<Rightarrow> nat" where
  "parseInt ds = foldl (\<lambda>acc c. 10 * acc + digit_val c) 0 ds"

text \<open>\<^verbatim>\<open>s.includes(pat)\<close>.\<close>

fun str_includes :: "string \<Rightarrow> string \<Rightarrow> bool" where
  "str_includes [] pat = (pat = [])"
| "str_includes (c # cs) pat = (take (length pat) (c # cs) = pat \<or> str_includes cs pat)"

text \<open>
  The regular-expression match of \<^verbatim>\<open>/components/\<close> and a run of digits against the path,
  followed by \<^verbatim>\<open>parseInt(match[1])\<close>: the leftmost place where \<^verbatim>\<open>/components/\<close> is followed by a digit, and the number its digits spell.
\<close>

fun components_index :: "string \<Rightarrow> nat option" where
  "components_index [] = None"
| "components_index (c # cs) =
     (if take 12 (c # cs) = ''/components/'' \<and> takeWhile is_digit (drop 12 (c # cs)) \<noteq> []
      then Some (parseInt (takeWhile is_digit (drop 12 (c # cs))))
      else components_index cs)"

section \<open>Stage 3: Synthesize\<close>

text \<open>
  \<^verbatim>\<open>fixValidationIssues(brandSpec, errors, logger)\<close>. For a \<^verbatim>\<open>required\<close> error whose path
  names a component, the component's falsy \<^verbatim>\<open>visual_properties\<close>, \<^verbatim>\<open>category\<close> and
  \<^verbatim>\<open>description\<close> are filled in. The component is read by index: where the list has no
  such entry the read gives \<^verbatim>\<open>undefined\<close> and the property access throws a TypeError.
\<close>

definition fix_component :: "component \<Rightarrow> component" where
  "fix_component c =
     (let c1 = (if \<not> truthy (visual_properties c) then c\<lparr>visual_properties := JObject []\<rparr> else c);
          c2 = (if \<not> truthy (category c1) then c1\<lparr>category := JStr ''other''\<rparr> else c1)
      in if \<not> truthy (description c2)
         then c2\<lparr>description := (if truthy (comp_name c2) then comp_name c2 else JStr ''Component'')\<rparr>
         else c2)"

definition fixValidationIssue :: "'r brand_spec \<Rightarrow> validation_error \<Rightarrow> error + 'r brand_spec" where
  "fixValidationIssue brandSpec err =
     (if str_includes (instancePath err) ''/components/'' \<and> keyword err = ''required''
      then (case components_index (instancePath err) of
              None \<Rightarrow> Inr brandSpec
            | Some index \<Rightarrow>
                (if index < length (components brandSpec)
                 then Inr (brandSpec\<lparr>components :=
                        (components brandSpec)[index := fix_component (components brandSpec ! index)]\<rparr>)
                 else Inl (Error ''Cannot read properties of undefined'')))
      else Inr brandSpec)"

fun fixValidationIssues :: "'r brand_spec \<Rightarrow> validation_error list \<Rightarrow> error + 'r brand_spec" where
  "fixValidationIssues brandSpec [] = Inr brandSpec"
| "fixValidationIssues brandSpec (err # errs) =
     (case fixValidationIssue brandSpec err of
        Inl e \<Rightarrow> Inl e
      | Inr brandSpec' \<Rightarrow> fixValidationIssues brandSpec' errs)"

text \<open>
  \<^verbatim>\<open>synthesizeBrandSpec(brandTokens, metadata, paths, totalDuration)\<close>. The whole body is
  inside \<^verbatim>\<open>try\<close>: any error gives a failed result without \<^verbatim>\<open>data\<close>. The second component of
  \<open>synthesize_counted\<close> counts the calls of \<^verbatim>\<open>validateBrandSpec\<close>; the source keeps no such
  counter, it is there to state how often the stage validates.
\<close>

definition synthesize_failed :: "error \<Rightarrow> string list \<Rightarrow> 'r brand_spec stage_result" where
  "synthesize_failed e ws =
     \<lparr>status = Failed, artifacts = [],
      errors = [\<lparr>code = ''SYNTHESIS_ERROR'', err_message = error_message e, recoverable = False\<rparr>],
      metrics = None, warnings = Some ws, data = None\<rparr>"

definition synthesize_save ::
  "('cap, 'tok, 'r) world \<Rightarrow> 'r brand_spec \<Rightarrow> string list \<Rightarrow> 'r brand_spec stage_result" where
  "synthesize_save w brandSpec ws =
     (case save_brand_spec w brandSpec of
        Some e \<Rightarrow> synthesize_failed e ws
      | None \<Rightarrow>
         \<lparr>status = (if length ws > 0 then Warning else Success),
          artifacts = [''brand_spec.json''], errors = [], metrics = None,
          warnings = Some ws, data = Some brandSpec\<rparr>)"

definition synthesize_counted ::
  "('cap, 'tok, 'r) world \<Rightarrow> 'tok option \<Rightarrow> 'r brand_spec stage_result \<times> nat" where
  "synthesize_counted w brandTokens =
     (case map_tokens w brandTokens of
        (ws0, Inl e) \<Rightarrow> (synthesize_failed e ws0, 0)
      | (ws0, Inr brandSpec) \<Rightarrow>
         (case validateBrandSpec w brandSpec of
            Inl e \<Rightarrow> (synthesize_failed e ws0, 1)
          | Inr v \<Rightarrow>
             (if \<not> valid v
              then (let ws1 = ws0 @ [''Schema validation issues: '' @ toString (length (verrors v))
                                       @ '' errors found'']
                    in case fixValidationIssues brandSpec (verrors v) of
                         Inl e \<Rightarrow> (synthesize_failed e ws1, 1)
                       | Inr brandSpec' \<Rightarrow>
                          (case validateBrandSpec w brandSpec' of
                             Inl e \<Rightarrow> (synthesize_failed e ws1, 2)
                           | Inr _ \<Rightarrow> (synthesize_save w brandSpec' ws1, 2)))
              else (synthesize_save w brandSpec ws0, 1))))"

definition synthesizeBrandSpec ::
  "('cap, 'tok, 'r) world \<Rightarrow> 'tok option \<Rightarrow> 'r brand_spec stage_result" where
  "synthesizeBrandSpec w brandTokens = fst (synthesize_counted w brandTokens)"

section \<open>Stage 5: Refine\<close>

text \<open>
  \<^verbatim>\<open>refineBrandSpec(brandSpec, evaluation, paths, config)\<close>. Every result but the successful
  one carries the specification it was given as \<^verbatim>\<open>data\<close>.
\<close>

definition refine_metrics :: "nat \<Rightarrow> nat \<Rightarrow> nat \<Rightarrow> nat \<Rightarrow> metrics" where
  "refine_metrics tin tout calls made =
     \<lparr>tokens_input = tin, tokens_output = tout, api_calls = Some calls,
      improvements_made = Some made\<rparr>"

definition refine_error ::
  "error \<Rightarrow> nat \<Rightarrow> nat \<Rightarrow> 'r brand_spec option \<Rightarrow> 'r brand_spec stage_result" where
  "refine_error e tin tout brandSpec =
     \<lparr>status = Failed, artifacts = [],
      errors = [\<lparr>code = ''REFINEMENT_ERROR'', err_message = error_message e, recoverable = True\<rparr>],
      metrics = Some (refine_metrics tin tout 1 0), warnings = None, data = brandSpec\<rparr>"

definition refineBrandSpec ::
  "('cap, 'tok, 'r) world \<Rightarrow> 'r brand_spec option \<Rightarrow> evaluation
     \<Rightarrow> error + 'r brand_spec stage_result" where
  "refineBrandSpec w brandSpec ev =
     (if js_ge (to_number (overall_score ev)) (9/2)
      then Inr \<lparr>status = Skipped, artifacts = [], errors = [],
                metrics = Some (refine_metrics 0 0 0 0), warnings = None, data = brandSpec\<rparr>
      else
       (case new_anthropic w of
          Some e \<Rightarrow> Inl e
        | None \<Rightarrow> Inr
           (case refine_call w brandSpec ev of
              Inl e \<Rightarrow> refine_error e 0 0 brandSpec
            | Inr msg \<Rightarrow>
               (let tin = input_tokens msg; tout = output_tokens msg in
                case parse_spec w (response_text msg) of
                  Inl e \<Rightarrow> refine_error e tin tout brandSpec
                | Inr refinedSpec \<Rightarrow>
                   (case validateBrandSpec w refinedSpec of
                      Inl e \<Rightarrow> refine_error e tin tout brandSpec
                    | Inr v \<Rightarrow>
                       (if \<not> valid v
                        then \<lparr>status = Failed, artifacts = [],
                              errors = [\<lparr>code = ''VALIDATION_FAILED'',
                                         err_message = ''Refined specification failed validation'',
                                         recoverable = True\<rparr>],
                              metrics = Some (refine_metrics tin tout 1 0),
                              warnings = None, data = brandSpec\<rparr>
                        else
                         (case save_brand_spec w refinedSpec of
                            Some e \<Rightarrow> refine_error e tin tout brandSpec
                          | None \<Rightarrow>
                             \<lparr>status = Success, artifacts = [''brand_spec.json (refined)''],
                              errors = [],
                              metrics = Some (refine_metrics tin tout 1
                                                (countImprovements w brandSpec refinedSpec)),
                              warnings = None, data = Some refinedSpec\<rparr>)))))))"

section \<open>The orchestrator\<close>

text \<open>The stage names passed to the progress callback and stored in events.\<close>

datatype stage =
  Setup | Capture | Analyze | Synthesize | Evaluate | Refine | Finalize | StageError | Complete

text \<open>One entry of \<^verbatim>\<open>executionTrace.stages\<close> (the timestamps and logs are left out).\<close>

record trace_stage =
  st_name :: string
  st_status :: status
  st_artifacts :: "string list"
  st_errors :: "stage_error list"
  st_metrics :: "metrics option"

record summary =
  total_tokens :: nat
  estimated_cost_usd :: rat
  summary_status :: string
  summary_warnings :: "string list"

record execution_trace =
  trace_brand_id :: string
  stages :: "trace_stage list"
  trace_summary :: summary

text \<open>The object \<^verbatim>\<open>extractBrand\<close> returns: \<^verbatim>\<open>success: true\<close> with the results, or
  \<^verbatim>\<open>success: false\<close> with the error message.\<close>

record 'r extraction =
  brand_id :: string
  brand_spec :: "'r brand_spec option"
  evaluation :: evaluation
  refinement :: "'r brand_spec stage_result option"
  execution_trace :: execution_trace

datatype 'r result = ExtractionSuccess "'r extraction" | ExtractionFailure string

text \<open>
  The state a run works on: the state behind the progress callback, and the stages pushed
  to the execution trace so far. A step returns a value or throws, and leaves a state.
  The callback of type \<open>sink\<close> returns the state it leaves and the error it throws, if any.
\<close>

record 's run_state =
  sink_state :: 's
  trace_stages :: "trace_stage list"

type_synonym ('s, 'a) prog = "'s run_state \<Rightarrow> (error + 'a) \<times> 's run_state"

type_synonym 's sink = "stage \<Rightarrow> string \<Rightarrow> 's \<Rightarrow> 's \<times> error option"

definition return_p :: "'a \<Rightarrow> ('s, 'a) prog" where
  "return_p a = (\<lambda>s. (Inr a, s))"

definition throw_p :: "error \<Rightarrow> ('s, 'a) prog" where
  "throw_p e = (\<lambda>s. (Inl e, s))"

definition lift_p :: "error + 'a \<Rightarrow> ('s, 'a) prog" where
  "lift_p x = (\<lambda>s. (x, s))"

definition check_p :: "error option \<Rightarrow> ('s, unit) prog" where
  "check_p x = (\<lambda>s. (case x of Some e \<Rightarrow> Inl e | None \<Rightarrow> Inr (), s))"

definition bind_p :: "('s, 'a) prog \<Rightarrow> ('a \<Rightarrow> ('s, 'b) prog) \<Rightarrow> ('s, 'b) prog" where
  "bind_p m f = (\<lambda>s. case m s of (Inl e, s') \<Rightarrow> (Inl e, s') | (Inr a, s') \<Rightarrow> f a s')"

definition try_catch :: "('s, 'a) prog \<Rightarrow> (error \<Rightarrow> ('s, 'a) prog) \<Rightarrow> ('s, 'a) prog" where
  "try_catch m h = (\<lambda>s. case m s of (Inl e, s') \<Rightarrow> h e s' | (Inr a, s') \<Rightarrow> (Inr a, s'))"

text \<open>\<^verbatim>\<open>emit(stage, message)\<close>: call \<^verbatim>\<open>onProgress\<close> when there is one.\<close>

definition emit :: "'s sink option \<Rightarrow> stage \<Rightarrow> string \<Rightarrow> ('s, unit) prog" where
  "emit onProgress stg msg =
     (\<lambda>s. case onProgress of
            None \<Rightarrow> (Inr (), s)
          | Some f \<Rightarrow>
             (case f stg msg (sink_state s) of
                (st', None) \<Rightarrow> (Inr (), s\<lparr>sink_state := st'\<rparr>)
              | (st', Some e) \<Rightarrow> (Inl e, s\<lparr>sink_state := st'\<rparr>)))"

definition push_stage :: "trace_stage \<Rightarrow> ('s, unit) prog" where
  "push_stage entry = (\<lambda>s. (Inr (), s\<lparr>trace_stages := trace_stages s @ [entry]\<rparr>))"

definition get_stages :: "('s, trace_stage list) prog" where
  "get_stages = (\<lambda>s. (Inr (trace_stages s), s))"

definition stage_entry :: "string \<Rightarrow> 'd stage_result \<Rightarrow> bool \<Rightarrow> trace_stage" where
  "stage_entry n r with_metrics =
     \<lparr>st_name = n, st_status = status r, st_artifacts = artifacts r, st_errors = errors r,
      st_metrics = (if with_metrics then metrics r else None)\<rparr>"

text \<open>\<^verbatim>\<open>errors[0]?.message\<close> inside a string concatenation.\<close>

definition first_error_message :: "stage_error list \<Rightarrow> string" where
  "first_error_message errs = (case errs of [] \<Rightarrow> ''undefined'' | e # _ \<Rightarrow> err_message e)"

definition fail_if_failed :: "string \<Rightarrow> 'd stage_result \<Rightarrow> ('s, unit) prog" where
  "fail_if_failed prefix r =
     (if status r = Failed then throw_p (Error (prefix @ first_error_message (errors r)))
      else return_p ())"

definition type_error :: error where
  "type_error = Error ''Cannot read properties of undefined''"

definition setup_phase :: "('cap, 'tok, 'r) world \<Rightarrow> 's sink option \<Rightarrow> ('s, unit) prog" where
  "setup_phase w onProgress =
     bind_p (emit onProgress Setup (''Creating brand directories for '' @ brandId w)) (\<lambda>_.
     check_p (createBrandDirectories w))"

definition capture_phase ::
  "('cap, 'tok, 'r) world \<Rightarrow> 's sink option \<Rightarrow> ('s, 'cap stage_result) prog" where
  "capture_phase w onProgress =
     bind_p (emit onProgress Capture ''Launching browser and capturing website...'') (\<lambda>_.
     bind_p (lift_p (captureWebsite w)) (\<lambda>captureResult.
     bind_p (push_stage (stage_entry ''capture'' captureResult False)) (\<lambda>_.
     bind_p (fail_if_failed ''Capture stage failed: '' captureResult) (\<lambda>_.
     bind_p (emit onProgress Capture
               (''Captured '' @ toString (length (artifacts captureResult)) @ '' artifacts'')) (\<lambda>_.
     return_p captureResult)))))"

definition analyze_phase ::
  "('cap, 'tok, 'r) world \<Rightarrow> 's sink option \<Rightarrow> 'cap stage_result
     \<Rightarrow> ('s, 'tok stage_result) prog" where
  "analyze_phase w onProgress captureResult =
     bind_p (emit onProgress Analyze ''Analyzing screenshots with Claude Vision API...'') (\<lambda>_.
     bind_p (lift_p (analyzeWithClaude w (data captureResult))) (\<lambda>analyzeResult.
     bind_p (push_stage (stage_entry ''analyze'' analyzeResult True)) (\<lambda>_.
     bind_p (fail_if_failed ''Analysis stage failed: '' analyzeResult) (\<lambda>_.
     bind_p (case metrics analyzeResult of
               None \<Rightarrow> throw_p type_error
             | Some m \<Rightarrow>
                emit onProgress Analyze
                  (''Analysis complete ('' @ toString (tokens_input m + tokens_output m)
                     @ '' tokens)'')) (\<lambda>_.
     return_p analyzeResult)))))"

definition synthesize_message :: "'d stage_result \<Rightarrow> string" where
  "synthesize_message r =
     (case warnings r of
        None \<Rightarrow> ''Brand specification synthesized and validated''
      | Some ws \<Rightarrow>
         (if length ws > 0
          then ''Synthesis complete with '' @ toString (length ws) @ '' warnings''
          else ''Brand specification synthesized and validated''))"

definition synthesize_phase ::
  "('cap, 'tok, 'r) world \<Rightarrow> 's sink option \<Rightarrow> 'tok stage_result
     \<Rightarrow> ('s, 'r brand_spec stage_result) prog" where
  "synthesize_phase w onProgress analyzeResult =
     bind_p (emit onProgress Synthesize ''Synthesizing brand specification...'') (\<lambda>_.
     bind_p (return_p (synthesizeBrandSpec w (data analyzeResult))) (\<lambda>synthesizeResult.
     bind_p (push_stage (stage_entry ''synthesize'' synthesizeResult False)) (\<lambda>_.
     bind_p (fail_if_failed ''Synthesis stage failed: '' synthesizeResult) (\<lambda>_.
     bind_p (emit onProgress Synthesize (synthesize_message synthesizeResult)) (\<lambda>_.
     return_p synthesizeResult)))))"

definition evaluate_phase ::
  "('cap, 'tok, 'r) world \<Rightarrow> 's sink option \<Rightarrow> 'r brand_spec stage_result
     \<Rightarrow> ('s, evaluation stage_result \<times> evaluation) prog" where
  "evaluate_phase w onProgress synthesizeResult =
     bind_p (emit onProgress Evaluate ''Evaluating brand specification quality...'') (\<lambda>_.
     bind_p (lift_p (evaluateBrandSpec w (data synthesizeResult))) (\<lambda>evaluateResult.
     bind_p (push_stage (stage_entry ''evaluate'' evaluateResult True)) (\<lambda>_.
     bind_p (fail_if_failed ''Evaluation stage failed: '' evaluateResult) (\<lambda>_.
     (case data evaluateResult of
        None \<Rightarrow> throw_p type_error
      | Some ev \<Rightarrow>
         (case overall_score ev of
            None \<Rightarrow> throw_p type_error
          | Some sc \<Rightarrow>
             bind_p (emit onProgress Evaluate
                       (''Evaluation complete - Overall score: '' @ toFixed2 w sc @ ''/5.0'')) (\<lambda>_.
             return_p (evaluateResult, ev))))))))"

text \<open>
  Stage 5 in \<^verbatim>\<open>extractBrand\<close>: refine when the score is below 4.5, otherwise push a skipped
  stage. The result is the refinement result, if any, and \<^verbatim>\<open>finalBrandSpec\<close>. (The message
  of the second branch ends in \<open>(\<ge>4.5)\<close> in the source.)
\<close>

definition improvements_text :: "metrics \<Rightarrow> string" where
  "improvements_text m = (case improvements_made m of None \<Rightarrow> ''undefined'' | Some k \<Rightarrow> toString k)"

definition skipped_refine_entry :: trace_stage where
  "skipped_refine_entry =
     \<lparr>st_name = ''refine'', st_status = Skipped, st_artifacts = [], st_errors = [],
      st_metrics = Some \<lparr>tokens_input = 0, tokens_output = 0, api_calls = None,
                         improvements_made = Some 0\<rparr>\<rparr>"

definition refine_phase ::
  "('cap, 'tok, 'r) world \<Rightarrow> 's sink option \<Rightarrow> 'r brand_spec stage_result \<Rightarrow> evaluation
     \<Rightarrow> ('s, 'r brand_spec stage_result option \<times> 'r brand_spec option) prog" where
  "refine_phase w onProgress synthesizeResult ev =
     (if js_lt (to_number (overall_score ev)) (9/2)
      then
        bind_p (emit onProgress Refine
                  (''Refining specification based on feedback (score: ''
                     @ toFixed2 w (to_number (overall_score ev)) @ '')...'')) (\<lambda>_.
        bind_p (lift_p (refineBrandSpec w (data synthesizeResult) ev)) (\<lambda>refineResult.
        bind_p (push_stage (stage_entry ''refine'' refineResult True)) (\<lambda>_.
        (if status refineResult = Success
         then
           bind_p (case metrics refineResult of
                     None \<Rightarrow> throw_p type_error
                   | Some m \<Rightarrow>
                      emit onProgress Refine
                        (''Refinement complete - Made '' @ improvements_text m @ '' improvements'')) (\<lambda>_.
           return_p (Some refineResult, data refineResult))
         else if status refineResult = Skipped
         then
           bind_p (emit onProgress Refine ''Refinement skipped - score is excellent'') (\<lambda>_.
           return_p (Some refineResult, data synthesizeResult))
         else
           bind_p (emit onProgress Refine ''Refinement failed - using original specification'') (\<lambda>_.
           return_p (Some refineResult, data synthesizeResult))))))
      else
        bind_p (emit onProgress Refine ''Refinement skipped - score is excellent (>=4.5)'') (\<lambda>_.
        bind_p (push_stage skipped_refine_entry) (\<lambda>_.
        return_p (None, data synthesizeResult))))"

text \<open>
  The totals of the summary. \<^verbatim>\<open>(r.metrics?.tokens_input || 0)\<close> reads 0 where the result or
  its metrics are absent. The cost is computed on exact rationals; \<^verbatim>\<open>toFixed(4)\<close> rounds a
  non-negative number to the nearest multiple of 1/10000, upwards on a tie.
\<close>

definition tokens_in :: "'d stage_result option \<Rightarrow> nat" where
  "tokens_in r = (case r of None \<Rightarrow> 0
                  | Some x \<Rightarrow> (case metrics x of None \<Rightarrow> 0 | Some m \<Rightarrow> tokens_input m))"

definition tokens_out :: "'d stage_result option \<Rightarrow> nat" where
  "tokens_out r = (case r of None \<Rightarrow> 0
                   | Some x \<Rightarrow> (case metrics x of None \<Rightarrow> 0 | Some m \<Rightarrow> tokens_output m))"

definition toFixed4 :: "rat \<Rightarrow> rat" where
  "toFixed4 x = of_int \<lfloor>x * 10000 + 1 / 2\<rfloor> / 10000"

definition estimatedCost :: "nat \<Rightarrow> nat \<Rightarrow> rat" where
  "estimatedCost inputTokens outputTokens =
     of_nat inputTokens / 1000000 * 3 + of_nat outputTokens / 1000000 * 15"

definition build_summary ::
  "'tok stage_result \<Rightarrow> 'r brand_spec stage_result \<Rightarrow> evaluation stage_result
     \<Rightarrow> 'r brand_spec stage_result option \<Rightarrow> summary" where
  "build_summary analyzeResult synthesizeResult evaluateResult refineResult =
     (let totalTokens =
            tokens_in (Some analyzeResult) + tokens_out (Some analyzeResult)
            + tokens_in (Some evaluateResult) + tokens_out (Some evaluateResult)
            + tokens_in refineResult + tokens_out refineResult;
          inputTokens =
            tokens_in (Some analyzeResult) + tokens_in (Some evaluateResult) + tokens_in refineResult;
          outputTokens =
            tokens_out (Some analyzeResult) + tokens_out (Some evaluateResult)
            + tokens_out refineResult
      in \<lparr>total_tokens = totalTokens,
          estimated_cost_usd = toFixed4 (estimatedCost inputTokens outputTokens),
          summary_status = ''success'',
          summary_warnings = (case warnings synthesizeResult of None \<Rightarrow> [] | Some ws \<Rightarrow> ws)\<rparr>)"

text \<open>
  The end of the \<^verbatim>\<open>try\<close> block: the trace is saved and validated (\<open>save_trace\<close>), the
  metadata is built from \<^verbatim>\<open>finalBrandSpec\<close>, which must be an object, and saved and validated
  (\<open>save_metadata\<close>), and the result is returned.
\<close>

definition finalize_phase ::
  "('cap, 'tok, 'r) world \<Rightarrow> 's sink option \<Rightarrow> 'tok stage_result \<Rightarrow> 'r brand_spec stage_result
     \<Rightarrow> evaluation stage_result \<Rightarrow> evaluation \<Rightarrow> 'r brand_spec stage_result option
     \<Rightarrow> 'r brand_spec option \<Rightarrow> ('s, 'r result) prog" where
  "finalize_phase w onProgress analyzeResult synthesizeResult evaluateResult ev refineResult
       finalBrandSpec =
     bind_p (emit onProgress Finalize ''Saving execution trace...'') (\<lambda>_.
     bind_p (check_p (save_trace w)) (\<lambda>_.
     bind_p (if finalBrandSpec = None then throw_p type_error else return_p ()) (\<lambda>_.
     bind_p (check_p (save_metadata w)) (\<lambda>_.
     bind_p (emit onProgress Finalize ''Brand extraction complete!'') (\<lambda>_.
     bind_p get_stages (\<lambda>pushed.
     return_p (ExtractionSuccess
       \<lparr>brand_id = brandId w, brand_spec = finalBrandSpec, evaluation = ev,
        refinement = refineResult,
        execution_trace =
          \<lparr>trace_brand_id = brandId w, stages = pushed,
           trace_summary =
             build_summary analyzeResult synthesizeResult evaluateResult refineResult\<rparr>\<rparr>)))))))"

text \<open>
  \<^verbatim>\<open>extractBrand(options)\<close>. The stages run inside \<^verbatim>\<open>try\<close>; the \<^verbatim>\<open>catch\<close> block emits the
  \<^verbatim>\<open>error\<close> event and returns the failure object. An error thrown inside the \<^verbatim>\<open>catch\<close>
  block leaves the function: the promise is rejected (\<open>Inl\<close>).
\<close>

definition pipeline ::
  "('cap, 'tok, 'r) world \<Rightarrow> 's sink option \<Rightarrow> ('s, 'r result) prog" where
  "pipeline w onProgress =
     bind_p (setup_phase w onProgress) (\<lambda>_.
     bind_p (capture_phase w onProgress) (\<lambda>captureResult.
     bind_p (analyze_phase w onProgress captureResult) (\<lambda>analyzeResult.
     bind_p (synthesize_phase w onProgress analyzeResult) (\<lambda>synthesizeResult.
     bind_p (evaluate_phase w onProgress synthesizeResult) (\<lambda>(evaluateResult, ev).
     bind_p (refine_phase w onProgress synthesizeResult ev) (\<lambda>(refineResult, finalBrandSpec).
     finalize_phase w onProgress analyzeResult synthesizeResult evaluateResult ev refineResult
       finalBrandSpec))))))"

definition extractBrand ::
  "('cap, 'tok, 'r) world \<Rightarrow> 's sink option \<Rightarrow> ('s, 'r result) prog" where
  "extractBrand w onProgress =
     try_catch (pipeline w onProgress) (\<lambda>e.
       bind_p (emit onProgress StageError (''Extraction failed: '' @ error_message e)) (\<lambda>_.
       return_p (ExtractionFailure (error_message e))))"

section \<open>The server: sessions and progress events\<close>

record event =
  ev_stage :: stage
  ev_message :: string
  progress_percent :: nat
  ev_brand_id :: "string option"

record 'r session =
  sess_status :: string
  progress :: nat
  sess_stage :: stage
  sess_message :: string
  events :: "event list"
  sess_result :: "'r result option"
  sess_error :: "string option"

text \<open>\<^verbatim>\<open>activeSessions\<close>, the map from session ids to sessions.\<close>

type_synonym 'r registry = "string \<rightharpoonup> 'r session"

text \<open>The table \<^verbatim>\<open>stageProgress\<close>; it has no entry for \<^verbatim>\<open>refine\<close> or \<^verbatim>\<open>complete\<close>.\<close>

fun stageProgress :: "stage \<Rightarrow> nat option" where
  "stageProgress Setup = Some 5"
| "stageProgress Capture = Some 25"
| "stageProgress Analyze = Some 50"
| "stageProgress Synthesize = Some 75"
| "stageProgress Evaluate = Some 90"
| "stageProgress Finalize = Some 100"
| "stageProgress StageError = Some 0"
| "stageProgress _ = None"

text \<open>
  The \<^verbatim>\<open>onProgress\<close> callback the server passes. Its body, for the session found under
  the id, is \<open>record_progress\<close>: \<^verbatim>\<open>stageProgress[stage] || session.progress\<close> keeps the
  session's progress where the table has no entry or the entry is 0. Without a session the
  callback does nothing.
\<close>

definition record_progress :: "stage \<Rightarrow> string \<Rightarrow> 'r session \<Rightarrow> 'r session" where
  "record_progress stg msg session =
     (let p = (case stageProgress stg of
                 None \<Rightarrow> progress session
               | Some v \<Rightarrow> (if v = 0 then progress session else v))
      in session\<lparr>sess_stage := stg, sess_message := msg, progress := p,
                 events := events session
                   @ [\<lparr>ev_stage = stg, ev_message = msg, progress_percent = p,
                       ev_brand_id = None\<rparr>]\<rparr>)"

definition onProgress_handler :: "string \<Rightarrow> stage \<Rightarrow> string \<Rightarrow> 'r registry \<Rightarrow> 'r registry" where
  "onProgress_handler sessionId stg msg activeSessions =
     (case activeSessions sessionId of
        None \<Rightarrow> activeSessions
      | Some session \<Rightarrow> activeSessions(sessionId \<mapsto> record_progress stg msg session))"

definition server_sink :: "string \<Rightarrow> 'r registry sink" where
  "server_sink sessionId = (\<lambda>stg msg activeSessions.
     (onProgress_handler sessionId stg msg activeSessions, None))"

text \<open>
  The \<^verbatim>\<open>.then\<close> handler: the promise of \<^verbatim>\<open>extractBrand\<close> was fulfilled with a result. The
  final event has the stage \<^verbatim>\<open>complete\<close> for a success and for a failure alike.
\<close>

definition final_event :: "'r result \<Rightarrow> event" where
  "final_event res =
     \<lparr>ev_stage = Complete,
      ev_message =
        (case res of
           ExtractionSuccess x \<Rightarrow> ''Extraction complete! Brand ID: '' @ brand_id x
         | ExtractionFailure m \<Rightarrow> ''Extraction failed: '' @ m),
      progress_percent = 100,
      ev_brand_id =
        (case res of ExtractionSuccess x \<Rightarrow> Some (brand_id x) | ExtractionFailure _ \<Rightarrow> None)\<rparr>"

definition finish_session :: "'r result \<Rightarrow> 'r session \<Rightarrow> 'r session" where
  "finish_session res session =
     session\<lparr>sess_status :=
               (case res of ExtractionSuccess _ \<Rightarrow> ''completed''
                | ExtractionFailure _ \<Rightarrow> ''failed''),
             progress := 100,
             sess_result := Some res,
             events := events session @ [final_event res]\<rparr>"

definition then_handler :: "string \<Rightarrow> 'r result \<Rightarrow> 'r registry \<Rightarrow> 'r registry" where
  "then_handler sessionId res activeSessions =
     (case activeSessions sessionId of
        None \<Rightarrow> activeSessions
      | Some session \<Rightarrow> activeSessions(sessionId \<mapsto> finish_session res session))"

text \<open>The \<^verbatim>\<open>.catch\<close> handler: the promise was rejected.\<close>

definition fail_session :: "error \<Rightarrow> 'r session \<Rightarrow> 'r session" where
  "fail_session e session =
     session\<lparr>sess_status := ''failed'',
             sess_error := Some (error_message e),
             events := events session
               @ [\<lparr>ev_stage = StageError, ev_message = ''Error: '' @ error_message e,
                   progress_percent = progress session, ev_brand_id = None\<rparr>]\<rparr>"

definition catch_handler :: "string \<Rightarrow> error \<Rightarrow> 'r registry \<Rightarrow> 'r registry" where
  "catch_handler sessionId e activeSessions =
     (case activeSessions sessionId of
        None \<Rightarrow> activeSessions
      | Some session \<Rightarrow> activeSessions(sessionId \<mapsto> fail_session e session))"

text \<open>
  The handler of \<^verbatim>\<open>POST /api/extract\<close> once the URL is accepted: the session id is the
  clock reading \<^verbatim>\<open>Date.now()\<close> in decimal, the new session is stored under it, and the run
  with its \<^verbatim>\<open>then\<close> or \<^verbatim>\<open>catch\<close> handler follows. The result is the session id, the
  registry after the run, and the stages the run pushed to its trace.
\<close>

definition new_session :: "'r session" where
  "new_session =
     \<lparr>sess_status = ''processing'', progress = 0, sess_stage = Setup,
      sess_message = ''Initializing extraction...'', events = [], sess_result = None,
      sess_error = None\<rparr>"

definition create_session :: "nat \<Rightarrow> 'r registry \<Rightarrow> string \<times> 'r registry" where
  "create_session now activeSessions =
     (let sessionId = toString now in (sessionId, activeSessions(sessionId \<mapsto> new_session)))"

definition run_extraction ::
  "('cap, 'tok, 'r) world \<Rightarrow> string \<Rightarrow> 'r registry \<Rightarrow> 'r registry \<times> trace_stage list" where
  "run_extraction w sessionId activeSessions =
     (case extractBrand w (Some (server_sink sessionId))
             \<lparr>sink_state = activeSessions, trace_stages = []\<rparr> of
        (Inr res, s) \<Rightarrow> (then_handler sessionId res (sink_state s), trace_stages s)
      | (Inl e, s) \<Rightarrow> (catch_handler sessionId e (sink_state s), trace_stages s))"

definition post_extract ::
  "('cap, 'tok, 'r) world \<Rightarrow> nat \<Rightarrow> 'r registry \<Rightarrow> string \<times> 'r registry \<times> trace_stage list" where
  "post_extract w now activeSessions =
     (case create_session now activeSessions of
        (sessionId, activeSessions') \<Rightarrow> (sessionId, run_extraction w sessionId activeSessions'))"

section \<open>A concrete run\<close>

text \<open>
  A world in which every collaborator succeeds: the capture yields three artifacts, the
  analysis one component without a description, the validator asks every component for a
  description and a name, the evaluation scores 3.8, and the refinement returns a
  specification that validates.
\<close>

definition example_component :: component where
  "example_component =
     \<lparr>comp_name = JStr ''Button'', category = JStr ''other'', description = JStr [],
      visual_properties = JObject [], states = JObject [], usage_rules = JStr [],
      example_html = JStr ''<button>Go</button>''\<rparr>"

definition example_spec :: "unit brand_spec" where
  "example_spec = \<lparr>components = [example_component], rest = ()\<rparr>"

definition refined_example_spec :: "unit brand_spec" where
  "refined_example_spec =
     \<lparr>components =
        [example_component\<lparr>description := JStr ''Primary call to action''\<rparr>,
         example_component\<lparr>comp_name := JStr ''Card'', description := JStr ''Content card''\<rparr>],
      rest = ()\<rparr>"

definition example_validate :: "unit brand_spec \<Rightarrow> error + validation" where
  "example_validate sp =
     (let errs =
        (if list_all (\<lambda>c. truthy (description c)) (components sp) then []
         else [\<lparr>instancePath = ''/components/0'', keyword = ''required'',
                verr_message = ''must have required property description''\<rparr>])
        @ (if list_all (\<lambda>c. truthy (comp_name c)) (components sp) then []
           else [\<lparr>instancePath = ''/components/0'', keyword = ''required'',
                  verr_message = ''must have required property name''\<rparr>])
      in Inr \<lparr>valid = (errs = []), verrors = errs\<rparr>)"

definition example_reply :: evaluation_data where
  "example_reply =
     \<lparr>reply_overall_score = Some (Fin (19/5)), reply_quality_band = Some ''excellent'',
      reply_dimensions = Some [], reply_recommendations = Some []\<rparr>"

definition example_capture :: "unit stage_result" where
  "example_capture =
     \<lparr>status = Success, artifacts = [''hero.png'', ''dom.json'', ''styles.json''],
      errors = [], metrics = None, warnings = None, data = Some ()\<rparr>"

definition example_analysis :: "nat \<Rightarrow> unit stage_result" where
  "example_analysis tin =
     \<lparr>status = Success, artifacts = [''brand_tokens.json''], errors = [],
      metrics = Some \<lparr>tokens_input = tin, tokens_output = 500, api_calls = Some 1,
                       improvements_made = None\<rparr>,
      warnings = None, data = Some ()\<rparr>"

definition example_world :: "(unit, unit, unit) world" where
  "example_world =
     \<lparr>brandId = ''example_2025_01_01_abcd1234'',
      createBrandDirectories = None,
      captureWebsite = Inr example_capture,
      analyzeWithClaude = (\<lambda>_. Inr (example_analysis 1000)),
      map_tokens = (\<lambda>_. ([], Inr example_spec)),
      validateBrandSpec = example_validate,
      save_brand_spec = (\<lambda>_. None),
      new_anthropic = None,
      evaluate_call = (\<lambda>_.
        Inr \<lparr>input_tokens = 2000, output_tokens = 800, response_text = ''{}''\<rparr>),
      parse_evaluation = (\<lambda>_. Inr example_reply),
      validateEvaluation = (\<lambda>_. Inr \<lparr>valid = True, verrors = []\<rparr>),
      save_evaluation = (\<lambda>_. None),
      refine_call = (\<lambda>_ _.
        Inr \<lparr>input_tokens = 3000, output_tokens = 1200, response_text = ''{}''\<rparr>),
      parse_spec = (\<lambda>_. Inr refined_example_spec),
      countImprovements = (\<lambda>_ _. 1),
      save_trace = None,
      save_metadata = None,
      toFixed2 = (\<lambda>_. ''3.80'')\<rparr>"

text \<open>
  A second world: the analysis found one component without a name and without a
  description. The repair gives it a description; the name stays missing.
\<close>

definition nameless_spec :: "unit brand_spec" where
  "nameless_spec = \<lparr>components = [example_component\<lparr>comp_name := Undefined\<rparr>], rest = ()\<rparr>"

definition nameless_world :: "(unit, unit, unit) world" where
  "nameless_world = example_world\<lparr>map_tokens := (\<lambda>_. ([], Inr nameless_spec))\<rparr>"


definition analysis_failed_world :: "(unit, unit, unit) world" where
  "analysis_failed_world =
     example_world\<lparr>analyzeWithClaude := (\<lambda>_.
       Inr \<lparr>status = Failed, artifacts = [],
            errors = [\<lparr>code = ''ANALYSIS_ERROR'',
                       err_message = ''No screenshots available for analysis'',
                       recoverable = False\<rparr>],
            metrics = Some \<lparr>tokens_input = 0, tokens_output = 0, api_calls = Some 1,
                             improvements_made = None\<rparr>,
            warnings = None, data = None\<rparr>)\<rparr>"




definition initial_state :: "'s \<Rightarrow> 's run_state" where
  "initial_state st = \<lparr>sink_state = st, trace_stages = []\<rparr>"

section \<open>Notions used to state the properties\<close>

text \<open>The violations the validator still reports for the specification a stage result carries.\<close>

definition unresolved_violations ::
  "('cap, 'tok, 'r) world \<Rightarrow> 'r brand_spec stage_result \<Rightarrow> validation_error list" where
  "unresolved_violations w r =
     (case data r of
        None \<Rightarrow> []
      | Some sp \<Rightarrow> (case validateBrandSpec w sp of Inl _ \<Rightarrow> [] | Inr v \<Rightarrow> verrors v))"

text \<open>
  The specification's reading of warnings that carry the unresolved violations: every
  violation is named by one of the warnings, or a warning states how many there are.
\<close>

definition carries_violations :: "string list \<Rightarrow> validation_error list \<Rightarrow> bool" where
  "carries_violations ws errs =
     (list_all (\<lambda>e. list_ex (\<lambda>m. str_includes m (verr_message e)) ws) errs
      \<or> list_ex (\<lambda>m. str_includes m (toString (length errs) @ '' errors'')) ws)"

text \<open>
  A triple for a step of a run: from a state that satisfies \<open>P\<close>, the step ends in a state
  that satisfies \<open>Q\<close> of its value when it returns, and \<open>E\<close> of its error when it throws.
\<close>

definition valid_p ::
  "('s run_state \<Rightarrow> bool) \<Rightarrow> ('s, 'a) prog \<Rightarrow> ('a \<Rightarrow> 's run_state \<Rightarrow> bool)
     \<Rightarrow> (error \<Rightarrow> 's run_state \<Rightarrow> bool) \<Rightarrow> bool" where
  "valid_p P m Q E =
     (\<forall>s. P s \<longrightarrow> (case m s of (Inr a, s') \<Rightarrow> Q a s' | (Inl e, s') \<Rightarrow> E e s'))"

text \<open>What a run returned: the extraction of a success result, the message of a failure.\<close>

definition success_of :: "(error + 'r result) \<times> 's run_state \<Rightarrow> 'r extraction option" where
  "success_of out =
     (case fst out of Inr (ExtractionSuccess x) \<Rightarrow> Some x | _ \<Rightarrow> None)"

definition failure_of :: "(error + 'r result) \<times> 's run_state \<Rightarrow> string option" where
  "failure_of out =
     (case fst out of Inr (ExtractionFailure m) \<Rightarrow> Some m | _ \<Rightarrow> None)"



definition session_status :: "'r registry \<Rightarrow> string \<Rightarrow> string option" where
  "session_status activeSessions sessionId = map_option sess_status (activeSessions sessionId)"

definition terminal :: "event \<Rightarrow> bool" where
  "terminal e = (ev_stage e = StageError \<or> ev_stage e = Complete)"

text \<open>
  A session in the middle of a run that found it with the events \<open>evs0\<close>: its log extends
  \<open>evs0\<close> by events that are not terminal, the percentages of the log do not decrease, and
  none is above the session's current progress.
\<close>

definition session_running :: "event list \<Rightarrow> 'r session \<Rightarrow> bool" where
  "session_running evs0 session =
     (take (length evs0) (events session) = evs0
      \<and> list_all (\<lambda>e. \<not> terminal e) (drop (length evs0) (events session))
      \<and> sorted (map progress_percent (events session))
      \<and> list_all (\<lambda>e. progress_percent e \<le> progress session) (events session))"

text \<open>The same for the session stored under an id, and that session's progress.\<close>

definition registry_running :: "string \<Rightarrow> event list \<Rightarrow> 'r registry \<Rightarrow> bool" where
  "registry_running sessionId evs0 activeSessions =
     (case activeSessions sessionId of
        None \<Rightarrow> False
      | Some session \<Rightarrow> session_running evs0 session)"

definition session_progress :: "'r registry \<Rightarrow> string \<Rightarrow> nat" where
  "session_progress activeSessions sessionId =
     (case activeSessions sessionId of None \<Rightarrow> 0 | Some session \<Rightarrow> progress session)"

text \<open>The progress a session has after an event of the given stage.\<close>

definition next_progress :: "stage \<Rightarrow> nat \<Rightarrow> nat" where
  "next_progress stg p =
     (case stageProgress stg of None \<Rightarrow> p | Some v \<Rightarrow> (if v = 0 then p else v))"



text \<open>The results the evaluation and the refinement return in the first world.\<close>

definition example_evaluate_result :: "evaluation stage_result" where
  "example_evaluate_result =
     \<lparr>status = Success, artifacts = [''evaluation.json''], errors = [],
      metrics = Some \<lparr>tokens_input = 2000, tokens_output = 800, api_calls = Some 1,
                       improvements_made = None\<rparr>,
      warnings = None,
      data = Some (build_evaluation example_reply 2800)\<rparr>"

definition example_refine_result :: "unit brand_spec stage_result" where
  "example_refine_result =
     \<lparr>status = Success, artifacts = [''brand_spec.json (refined)''], errors = [],
      metrics = Some \<lparr>tokens_input = 3000, tokens_output = 1200, api_calls = Some 1,
                       improvements_made = Some 1\<rparr>,
      warnings = None, data = Some refined_example_spec\<rparr>"







section \<open>Properties of the evaluation stage\<close>






section \<open>Properties of the session identifier\<close>

lemma digit_val_digit_char: "d < 10 \<Longrightarrow> digit_val (digit_char d) = d"
  by (simp add: digit_val_def digit_char_def)

lemma parseInt_snoc: "parseInt (ds @ [c]) = 10 * parseInt ds + digit_val c"
  by (simp add: parseInt_def)

lemma parseInt_toString: "parseInt (toString n) = n"
proof (induction n rule: toString.induct)
  case (1 n)
  show ?case
  proof (cases "n < 10")
    case True
    then show ?thesis
      by (subst toString.simps) (simp add: parseInt_def digit_val_digit_char)
  next
    case False
    with 1 have "parseInt (toString (n div 10)) = n div 10" by simp
    with False show ?thesis
      by (subst toString.simps) (simp add: parseInt_snoc digit_val_digit_char)
  qed
qed

lemma toString_inj: "toString m = toString n \<Longrightarrow> m = n"
  by (metis parseInt_toString)

text \<open>
  Claim C9, as the code has it. The session id is the decimal clock reading and nothing
  else, so two requests get distinct ids whenever their clock readings differ, whatever the
  registry holds.
\<close>

theorem session_ids_distinct:
  "now1 \<noteq> now2 \<Longrightarrow> fst (create_session now1 reg1) \<noteq> fst (create_session now2 reg2)"
  by (auto simp: create_session_def Let_def dest: toString_inj)

theorem session_ids_distinct_witness:
  "(1700000000000::nat) \<noteq> 1700000000001
   \<and> fst (create_session 1700000000000 (Map.empty :: unit registry))
       \<noteq> fst (create_session 1700000000001 (Map.empty :: unit registry))"
  using session_ids_distinct [of 1700000000000 1700000000001 Map.empty Map.empty]
  by simp

text \<open>
  Claim C9, as stated, fails: a second request that arrives in the same millisecond as the
  first, here on the registry the first one left, is given the same session id.
\<close>

theorem session_id_collision:
  "fst (create_session 1700000000000 (Map.empty :: unit registry))
     = fst (create_session 1700000000000
              (snd (create_session 1700000000000 (Map.empty :: unit registry))))"
  by (simp add: create_session_def Let_def)

section \<open>Properties of the synthesis stage\<close>

lemma fixValidationIssue_in_range:
  assumes "\<forall>i. components_index (instancePath e) = Some i \<longrightarrow> i < length (components sp)"
  shows "\<exists>sp'. fixValidationIssue sp e = Inr sp'
           \<and> length (components sp') = length (components sp)"
  using assms by (auto simp: fixValidationIssue_def split: option.splits)

lemma fixValidationIssues_in_range:
  assumes "\<forall>e\<in>set errs. \<forall>i. components_index (instancePath e) = Some i
             \<longrightarrow> i < length (components sp)"
  shows "\<exists>sp'. fixValidationIssues sp errs = Inr sp'
           \<and> length (components sp') = length (components sp)"
  using assms
proof (induction errs arbitrary: sp)
  case Nil
  then show ?case by simp
next
  case (Cons e errs)
  from Cons.prems obtain sp1 where one: "fixValidationIssue sp e = Inr sp1"
    and len: "length (components sp1) = length (components sp)"
    using fixValidationIssue_in_range [of e sp] by auto
  from Cons.prems len
  have "\<forall>e\<in>set errs. \<forall>i. components_index (instancePath e) = Some i
          \<longrightarrow> i < length (components sp1)"
    by simp
  from Cons.IH [OF this] obtain sp' where "fixValidationIssues sp1 errs = Inr sp'"
    and "length (components sp') = length (components sp1)"
    by auto
  with one len show ?case by simp
qed

text \<open>
  Claim C5, as the code has it. Let the specification built from the tokens fail
  validation, let every component index in the reported error paths exist (Ajv reports
  paths into the document it was given), and let neither the validator nor the file system
  throw. Then the repair runs through, the stage validates exactly twice (once before and
  once after the repair), and it returns status warning with the repaired specification.
  Its warnings are those of the mapping followed by one line that counts the violations of
  the first validation; what the second validation reports does not enter the result.
\<close>

theorem synthesis_survives_schema_violations:
  assumes mapped: "map_tokens w t = (ws0, Inr mapped)"
    and first: "validateBrandSpec w mapped = Inr v" and invalid: "\<not> valid v"
    and paths: "\<forall>e\<in>set (verrors v). \<forall>i. components_index (instancePath e) = Some i
                  \<longrightarrow> i < length (components mapped)"
    and validator: "\<forall>sp. \<exists>v'. validateBrandSpec w sp = Inr v'"
    and saved: "\<forall>sp. save_brand_spec w sp = None"
  shows "\<exists>repaired. fixValidationIssues mapped (verrors v) = Inr repaired
           \<and> synthesize_counted w t =
               (\<lparr>status = Warning, artifacts = [''brand_spec.json''], errors = [],
                 metrics = None,
                 warnings = Some (ws0 @ [''Schema validation issues: ''
                                          @ toString (length (verrors v)) @ '' errors found'']),
                 data = Some repaired\<rparr>, 2)"
proof -
  from fixValidationIssues_in_range [OF paths]
  obtain repaired where rep: "fixValidationIssues mapped (verrors v) = Inr repaired"
    by auto
  from validator obtain v' where second: "validateBrandSpec w repaired = Inr v'"
    by blast
  from saved have "save_brand_spec w repaired = None" by simp
  with mapped first invalid rep second show ?thesis
    by (simp add: synthesize_counted_def synthesize_save_def Let_def)
qed

lemma example_repair:
  "fixValidationIssues example_spec
     [\<lparr>instancePath = ''/components/0'', keyword = ''required'',
       verr_message = ''must have required property description''\<rparr>]
   = Inr \<lparr>components = [example_component\<lparr>description := JStr ''Button''\<rparr>], rest = ()\<rparr>"
  by (simp add: fixValidationIssue_def is_digit_def parseInt_def digit_val_def example_spec_def
        fix_component_def example_component_def)

lemma toString_1: "toString (Suc 0) = ''1''"
  by code_simp

text \<open>The example run: one violation, repaired by giving the component a description.\<close>

theorem synthesis_survives_schema_violations_witness:
  "map_tokens example_world (Some ()) = ([], Inr example_spec)
   \<and> \<not> valid \<lparr>valid = False,
               verrors = [\<lparr>instancePath = ''/components/0'', keyword = ''required'',
                  verr_message = ''must have required property description''\<rparr>]\<rparr>
   \<and> synthesize_counted example_world (Some ()) =
       (\<lparr>status = Warning, artifacts = [''brand_spec.json''], errors = [], metrics = None,
         warnings = Some [''Schema validation issues: 1 errors found''],
         data = Some \<lparr>components = [example_component\<lparr>description := JStr ''Button''\<rparr>],
                       rest = ()\<rparr>\<rparr>, 2)"
proof -
  let ?v = "\<lparr>valid = False,
               verrors = [\<lparr>instancePath = ''/components/0'', keyword = ''required'',
                  verr_message = ''must have required property description''\<rparr>]\<rparr>"
  have mapped: "map_tokens example_world (Some ()) = ([], Inr example_spec)"
    by (simp add: example_world_def)
  have first: "validateBrandSpec example_world example_spec = Inr ?v"
    by (simp add: example_world_def example_validate_def example_spec_def example_component_def)
  have invalid: "\<not> valid ?v" by simp
  have paths: "\<forall>e\<in>set (verrors ?v). \<forall>i. components_index (instancePath e) = Some i
                  \<longrightarrow> i < length (components example_spec)"
    by (simp add: is_digit_def parseInt_def digit_val_def example_spec_def)
  have validator: "\<forall>sp. \<exists>v'. validateBrandSpec example_world sp = Inr v'"
    by (simp add: example_world_def example_validate_def Let_def)
  have saved: "\<forall>sp. save_brand_spec example_world sp = None"
    by (simp add: example_world_def)
  from synthesis_survives_schema_violations [OF mapped first invalid paths validator saved]
  show ?thesis
    using mapped by (simp add: example_repair toString_1 del: fixValidationIssues.simps)
qed

text \<open>
  Claim C5, as stated, fails in what the warnings carry. In the second world the first
  validation reports two violations and the repair resolves one of them. The result's only
  warning is the count of the first validation, two; the violation that is left, the
  missing name, is neither named nor counted by it.
\<close>

theorem warnings_count_first_validation:
  "warnings (synthesizeBrandSpec nameless_world (Some ()))
     = Some [''Schema validation issues: 2 errors found'']
   \<and> map verr_message
         (unresolved_violations nameless_world (synthesizeBrandSpec nameless_world (Some ())))
       = [''must have required property name'']
   \<and> \<not> carries_violations [''Schema validation issues: 2 errors found'']
         (unresolved_violations nameless_world (synthesizeBrandSpec nameless_world (Some ())))"
  by code_simp

section \<open>Properties of a run of the orchestrator\<close>

lemmas prog_defs = bind_p_def return_p_def throw_p_def lift_p_def check_p_def push_stage_def
  get_stages_def try_catch_def fail_if_failed_def

lemma emit_None: "emit None stg msg s = (Inr (), s)"
  by (simp add: emit_def)

text \<open>What a step that returned tells about the collaborators and the trace.\<close>

lemma bind_p_Inr:
  assumes "bind_p m f s = (Inr b, s')"
  obtains a s1 where "m s = (Inr a, s1)" and "f a s1 = (Inr b, s')"
  using assms by (auto simp: bind_p_def split: prod.splits sum.splits)

lemma emit_trace: "emit onProgress stg msg s = (r, s1) \<Longrightarrow> trace_stages s1 = trace_stages s"
  by (auto simp: emit_def split: option.splits prod.splits)

lemma fail_if_failed_Inr:
  "fail_if_failed prefix r s = (Inr u, s1) \<Longrightarrow> status r \<noteq> Failed \<and> s1 = s"
  by (auto simp: fail_if_failed_def throw_p_def return_p_def split: if_splits)

lemma setup_phase_Inr:
  assumes "setup_phase w onProgress s = (Inr u, s1)"
  shows "trace_stages s1 = trace_stages s"
  using assms unfolding setup_phase_def
  by (auto simp: check_p_def elim!: bind_p_Inr dest: emit_trace split: option.splits)

lemma capture_phase_Inr:
  assumes "capture_phase w onProgress s = (Inr c, s1)"
  shows "captureWebsite w = Inr c \<and> status c \<noteq> Failed
         \<and> trace_stages s1 = trace_stages s @ [stage_entry ''capture'' c False]"
  using assms unfolding capture_phase_def
  by (auto simp: lift_p_def push_stage_def return_p_def
      elim!: bind_p_Inr dest!: emit_trace fail_if_failed_Inr)

lemma analyze_phase_Inr:
  assumes "analyze_phase w onProgress c s = (Inr a, s1)"
  shows "analyzeWithClaude w (data c) = Inr a \<and> status a \<noteq> Failed \<and> metrics a \<noteq> None
         \<and> trace_stages s1 = trace_stages s @ [stage_entry ''analyze'' a True]"
  using assms unfolding analyze_phase_def
  by (auto simp: lift_p_def push_stage_def return_p_def throw_p_def
      elim!: bind_p_Inr dest!: emit_trace fail_if_failed_Inr split: option.splits)

lemma synthesize_phase_Inr:
  assumes "synthesize_phase w onProgress a s = (Inr sy, s1)"
  shows "sy = synthesizeBrandSpec w (data a) \<and> status sy \<noteq> Failed
         \<and> trace_stages s1 = trace_stages s @ [stage_entry ''synthesize'' sy False]"
  using assms unfolding synthesize_phase_def
  by (auto simp: lift_p_def push_stage_def return_p_def throw_p_def
      elim!: bind_p_Inr dest!: emit_trace fail_if_failed_Inr split: option.splits)

lemma evaluate_phase_Inr:
  assumes "evaluate_phase w onProgress sy s = (Inr (er, ev), s1)"
  shows "evaluateBrandSpec w (data sy) = Inr er \<and> status er \<noteq> Failed \<and> data er = Some ev
         \<and> overall_score ev \<noteq> None
         \<and> trace_stages s1 = trace_stages s @ [stage_entry ''evaluate'' er True]"
  using assms unfolding evaluate_phase_def
  by (auto simp: lift_p_def push_stage_def return_p_def throw_p_def
      elim!: bind_p_Inr dest!: emit_trace fail_if_failed_Inr split: option.splits)

lemma refine_phase_Inr:
  assumes "refine_phase w onProgress sy ev s = (Inr (rr, final), s1)"
  shows "if js_lt (to_number (overall_score ev)) (9/2)
         then (case refineBrandSpec w (data sy) ev of
                 Inl _ \<Rightarrow> False
               | Inr r \<Rightarrow> rr = Some r
                 \<and> final = (if status r = Success then data r else data sy)
                 \<and> trace_stages s1 = trace_stages s @ [stage_entry ''refine'' r True])
         else rr = None \<and> final = data sy
                 \<and> trace_stages s1 = trace_stages s @ [skipped_refine_entry]"
  using assms unfolding refine_phase_def
  by (auto simp: lift_p_def push_stage_def return_p_def throw_p_def
      elim!: bind_p_Inr dest!: emit_trace split: option.splits if_splits)

lemma finalize_phase_Inr:
  assumes "finalize_phase w onProgress a sy er ev rr final s = (Inr res, s1)"
  shows "final \<noteq> None \<and> res = ExtractionSuccess
       \<lparr>brand_id = brandId w, brand_spec = final, evaluation = ev,
        refinement = rr,
        execution_trace =
          \<lparr>trace_brand_id = brandId w, stages = trace_stages s,
           trace_summary = build_summary a sy er rr\<rparr>\<rparr>"
  using assms unfolding finalize_phase_def
  by (auto simp: check_p_def get_stages_def return_p_def throw_p_def
      elim!: bind_p_Inr dest!: emit_trace split: option.splits if_splits)


lemma pipeline_Inr:
  assumes "pipeline w onProgress s = (Inr res, s1)" and "trace_stages s = []"
  shows "\<exists>c a er ev rr final.
           captureWebsite w = Inr c \<and> status c \<noteq> Failed
         \<and> analyzeWithClaude w (data c) = Inr a \<and> status a \<noteq> Failed \<and> metrics a \<noteq> None
         \<and> status (synthesizeBrandSpec w (data a)) \<noteq> Failed
         \<and> evaluateBrandSpec w (data (synthesizeBrandSpec w (data a))) = Inr er
         \<and> status er \<noteq> Failed \<and> data er = Some ev \<and> overall_score ev \<noteq> None
         \<and> (if js_lt (to_number (overall_score ev)) (9/2)
              then (case refineBrandSpec w (data (synthesizeBrandSpec w (data a))) ev of
                      Inl _ \<Rightarrow> False
                    | Inr r \<Rightarrow> rr = Some r
                        \<and> final = (if status r = Success then data r
                                    else data (synthesizeBrandSpec w (data a))))
              else rr = None \<and> final = data (synthesizeBrandSpec w (data a)))
         \<and> final \<noteq> None
         \<and> res = ExtractionSuccess
             \<lparr>brand_id = brandId w, brand_spec = final, evaluation = ev, refinement = rr,
              execution_trace =
                \<lparr>trace_brand_id = brandId w,
                 stages = [stage_entry ''capture'' c False, stage_entry ''analyze'' a True,
                           stage_entry ''synthesize'' (synthesizeBrandSpec w (data a)) False,
                           stage_entry ''evaluate'' er True,
                           (case rr of None \<Rightarrow> skipped_refine_entry
                            | Some r \<Rightarrow> stage_entry ''refine'' r True)],
                 trace_summary = build_summary a (synthesizeBrandSpec w (data a)) er rr\<rparr>\<rparr>"
proof -
  from assms(1) obtain u s2 c s3 a s4 sy s5 er ev s6 rr final s7 where
    p1: "setup_phase w onProgress s = (Inr u, s2)"
    and p2: "capture_phase w onProgress s2 = (Inr c, s3)"
    and p3: "analyze_phase w onProgress c s3 = (Inr a, s4)"
    and p4: "synthesize_phase w onProgress a s4 = (Inr sy, s5)"
    and p5: "evaluate_phase w onProgress sy s5 = (Inr (er, ev), s6)"
    and p6: "refine_phase w onProgress sy ev s6 = (Inr (rr, final), s7)"
    and p7: "finalize_phase w onProgress a sy er ev rr final s7 = (Inr res, s1)"
    unfolding pipeline_def
    by (auto elim!: bind_p_Inr)
  note f1 = setup_phase_Inr [OF p1]
  note f2 = capture_phase_Inr [OF p2]
  note f3 = analyze_phase_Inr [OF p3]
  note f4 = synthesize_phase_Inr [OF p4]
  note f5 = evaluate_phase_Inr [OF p5]
  note f6 = refine_phase_Inr [OF p6]
  note f7 = finalize_phase_Inr [OF p7]
  from f4 have sy: "sy = synthesizeBrandSpec w (data a)" by simp
  have st: "trace_stages s7 = [stage_entry ''capture'' c False, stage_entry ''analyze'' a True,
                           stage_entry ''synthesize'' sy False,
                           stage_entry ''evaluate'' er True,
                           (case rr of None \<Rightarrow> skipped_refine_entry
                            | Some r \<Rightarrow> stage_entry ''refine'' r True)]"
    using f1 f2 f3 f4 f5 f6 assms(2)
    by (auto split: if_splits sum.splits)
  show ?thesis
    apply (rule exI [of _ c], rule exI [of _ a], rule exI [of _ er], rule exI [of _ ev],
           rule exI [of _ rr], rule exI [of _ final])
    using f2 f3 f4 f5 f6 f7 st sy
    by (auto split: if_splits sum.splits)
qed

lemma extractBrand_success:
  assumes "extractBrand w onProgress s = (Inr (ExtractionSuccess x), s1)"
  shows "pipeline w onProgress s = (Inr (ExtractionSuccess x), s1)"
  using assms
  by (auto simp: extractBrand_def try_catch_def bind_p_def return_p_def
      split: prod.splits sum.splits)

text \<open>
  The run in which nothing fails, without a progress callback: it returns the success
  object assembled from the results of the stages.
\<close>

lemma happy_path:
  assumes "createBrandDirectories w = None"
    and "captureWebsite w = Inr c" and "status c \<noteq> Failed"
    and "analyzeWithClaude w (data c) = Inr a" and "status a \<noteq> Failed"
    and "metrics a \<noteq> None"
    and "status (synthesizeBrandSpec w (data a)) \<noteq> Failed"
    and "evaluateBrandSpec w (data (synthesizeBrandSpec w (data a))) = Inr er"
    and "status er \<noteq> Failed" and "data er = Some ev" and "overall_score ev \<noteq> None"
    and "if js_lt (to_number (overall_score ev)) (9/2)
         then refineBrandSpec w (data (synthesizeBrandSpec w (data a))) ev = Inr r
              \<and> rr = Some r \<and> (status r = Success \<longrightarrow> metrics r \<noteq> None)
              \<and> final = (if status r = Success then data r
                          else data (synthesizeBrandSpec w (data a)))
         else rr = None \<and> final = data (synthesizeBrandSpec w (data a))"
    and "final \<noteq> None"
    and "save_trace w = None" and "save_metadata w = None"
  shows "success_of (extractBrand w None (initial_state st)) =
     Some \<lparr>brand_id = brandId w, brand_spec = final, evaluation = ev, refinement = rr,
              execution_trace =
                \<lparr>trace_brand_id = brandId w,
                 stages = [stage_entry ''capture'' c False, stage_entry ''analyze'' a True,
                           stage_entry ''synthesize'' (synthesizeBrandSpec w (data a)) False,
                           stage_entry ''evaluate'' er True,
                           (case rr of None \<Rightarrow> skipped_refine_entry
                            | Some r \<Rightarrow> stage_entry ''refine'' r True)],
                 trace_summary = build_summary a (synthesizeBrandSpec w (data a)) er rr\<rparr>\<rparr>"
proof -
  have p1: "setup_phase w None s = (Inr (), s)" for s :: "'e run_state"
    using assms(1) by (simp add: setup_phase_def prog_defs emit_None)
  have p2: "capture_phase w None s
              = (Inr c, s\<lparr>trace_stages := trace_stages s @ [stage_entry ''capture'' c False]\<rparr>)"
    for s :: "'e run_state"
    using assms(2,3) by (simp add: capture_phase_def prog_defs emit_None)
  have p3: "analyze_phase w None c s
              = (Inr a, s\<lparr>trace_stages := trace_stages s @ [stage_entry ''analyze'' a True]\<rparr>)"
    for s :: "'e run_state"
    using assms(4,5,6) by (auto simp: analyze_phase_def prog_defs emit_None)
  have p4: "synthesize_phase w None a s
              = (Inr (synthesizeBrandSpec w (data a)),
                 s\<lparr>trace_stages := trace_stages s
                     @ [stage_entry ''synthesize'' (synthesizeBrandSpec w (data a)) False]\<rparr>)"
    for s :: "'e run_state"
    using assms(7) by (simp add: synthesize_phase_def prog_defs emit_None)
  have p5: "evaluate_phase w None (synthesizeBrandSpec w (data a)) s
              = (Inr (er, ev),
                 s\<lparr>trace_stages := trace_stages s @ [stage_entry ''evaluate'' er True]\<rparr>)"
    for s :: "'e run_state"
    using assms(8,9,10,11) by (auto simp: evaluate_phase_def prog_defs emit_None)
  have p6: "refine_phase w None (synthesizeBrandSpec w (data a)) ev s
              = (Inr (rr, final),
                 s\<lparr>trace_stages := trace_stages s
                     @ [case rr of None \<Rightarrow> skipped_refine_entry
                        | Some r \<Rightarrow> stage_entry ''refine'' r True]\<rparr>)"
    for s :: "'e run_state"
    using assms(12) by (auto simp: refine_phase_def prog_defs emit_None split: if_splits)
  have p7: "finalize_phase w None a (synthesizeBrandSpec w (data a)) er ev rr final s
              = (Inr (ExtractionSuccess
       \<lparr>brand_id = brandId w, brand_spec = final, evaluation = ev,
        refinement = rr,
        execution_trace =
          \<lparr>trace_brand_id = brandId w, stages = trace_stages s,
           trace_summary = build_summary a (synthesizeBrandSpec w (data a)) er rr\<rparr>\<rparr>), s)"
    for s :: "'e run_state"
    using assms(13,14,15) by (simp add: finalize_phase_def prog_defs emit_None)
  show ?thesis
    by (simp add: extractBrand_def pipeline_def try_catch_def bind_p_def p1 p2 p3 p4 p5 p6 p7
        success_of_def initial_state_def)
qed

section \<open>Properties of the refinement gate\<close>

lemma refine_success_valid:
  assumes "refineBrandSpec w S ev = Inr r" and "status r = Success"
  shows "\<exists>msg S' v. refine_call w S ev = Inr msg \<and> parse_spec w (response_text msg) = Inr S'
           \<and> validateBrandSpec w S' = Inr v \<and> valid v \<and> data r = Some S'"
  using assms
  by (auto simp: refineBrandSpec_def refine_error_def Let_def
      split: if_splits option.splits sum.splits)

lemma refine_call_error:
  assumes "refineBrandSpec w S ev = Inr r" and "refine_call w S ev = Inl e"
    and "\<not> js_ge (to_number (overall_score ev)) (9/2)"
  shows "status r = Failed \<and> data r = S"
  using assms
  by (auto simp: refineBrandSpec_def refine_error_def Let_def
      split: if_splits option.splits sum.splits)

lemma refine_invalid_output:
  assumes "refineBrandSpec w S ev = Inr r" and "refine_call w S ev = Inr msg"
    and "parse_spec w (response_text msg) = Inr S'" and "validateBrandSpec w S' = Inr v"
    and "\<not> valid v" and "\<not> js_ge (to_number (overall_score ev)) (9/2)"
  shows "status r = Failed \<and> data r = S"
  using assms
  by (auto simp: refineBrandSpec_def refine_error_def Let_def
      split: if_splits option.splits sum.splits)

lemma js_lt_not_ge: "js_lt n c \<Longrightarrow> \<not> js_ge n c"
  by (cases n) auto

text \<open>
  Claim C1. Take a run that returns a success object whose evaluation scores below 4.5. The
  evaluation is that of the synthesized specification S, the refinement stage ran on S, and
  the returned \<open>brand_spec\<close> is either a refined specification which the validator
  accepted (when the refinement result is a success), or S itself (in every other case). In
  particular S is returned when the refinement call throws and when the validator rejects
  the refined output.
\<close>

theorem refinement_non_regression:
  assumes run: "extractBrand w onProgress (initial_state st) = (Inr (ExtractionSuccess x), s1)"
    and low: "js_lt (to_number (overall_score (evaluation x))) (9/2)"
  shows "\<exists>c a er r.
           captureWebsite w = Inr c \<and> analyzeWithClaude w (data c) = Inr a
         \<and> evaluateBrandSpec w (data (synthesizeBrandSpec w (data a))) = Inr er
         \<and> data er = Some (evaluation x)
         \<and> refineBrandSpec w (data (synthesizeBrandSpec w (data a))) (evaluation x) = Inr r
         \<and> refinement x = Some r
         \<and> (if status r = Success
             then (\<exists>msg S' v.
                     refine_call w (data (synthesizeBrandSpec w (data a))) (evaluation x) = Inr msg
                   \<and> parse_spec w (response_text msg) = Inr S'
                   \<and> validateBrandSpec w S' = Inr v \<and> valid v
                   \<and> brand_spec x = Some S')
             else brand_spec x = data (synthesizeBrandSpec w (data a)))
         \<and> (\<forall>e. refine_call w (data (synthesizeBrandSpec w (data a))) (evaluation x) = Inl e
                \<longrightarrow> brand_spec x = data (synthesizeBrandSpec w (data a)))
         \<and> (\<forall>msg S' v.
                refine_call w (data (synthesizeBrandSpec w (data a))) (evaluation x) = Inr msg
              \<and> parse_spec w (response_text msg) = Inr S'
              \<and> validateBrandSpec w S' = Inr v \<and> \<not> valid v
                \<longrightarrow> brand_spec x = data (synthesizeBrandSpec w (data a)))"
proof -
  from pipeline_Inr [OF extractBrand_success [OF run]]
  obtain c a er ev rr final where
    c: "captureWebsite w = Inr c" and a: "analyzeWithClaude w (data c) = Inr a"
    and er: "evaluateBrandSpec w (data (synthesizeBrandSpec w (data a))) = Inr er"
    and ev: "data er = Some ev"
    and gate: "if js_lt (to_number (overall_score ev)) (9/2)
              then (case refineBrandSpec w (data (synthesizeBrandSpec w (data a))) ev of
                      Inl _ \<Rightarrow> False
                    | Inr r \<Rightarrow> rr = Some r
                        \<and> final = (if status r = Success then data r
                                    else data (synthesizeBrandSpec w (data a))))
              else rr = None \<and> final = data (synthesizeBrandSpec w (data a))"
    and x: "x = \<lparr>brand_id = brandId w, brand_spec = final, evaluation = ev, refinement = rr,
              execution_trace =
                \<lparr>trace_brand_id = brandId w,
                 stages = [stage_entry ''capture'' c False, stage_entry ''analyze'' a True,
                           stage_entry ''synthesize'' (synthesizeBrandSpec w (data a)) False,
                           stage_entry ''evaluate'' er True,
                           (case rr of None \<Rightarrow> skipped_refine_entry
                            | Some r \<Rightarrow> stage_entry ''refine'' r True)],
                 trace_summary = build_summary a (synthesizeBrandSpec w (data a)) er rr\<rparr>\<rparr>"
    by (auto simp: initial_state_def)
  let ?S = "data (synthesizeBrandSpec w (data a))"
  from x have xe: "evaluation x = ev" and xb: "brand_spec x = final" and xr: "refinement x = rr"
    by simp_all
  from low xe have low': "js_lt (to_number (overall_score ev)) (9/2)" by simp
  with gate obtain r where r: "refineBrandSpec w ?S ev = Inr r" and rr: "rr = Some r"
    and final: "final = (if status r = Success then data r else ?S)"
    by (auto split: sum.splits)
  have not_ge: "\<not> js_ge (to_number (overall_score ev)) (9/2)"
    using low' by (rule js_lt_not_ge)
  have kept: "status r \<noteq> Success \<Longrightarrow> brand_spec x = ?S"
    using final xb by simp
  have succ: "status r = Success \<Longrightarrow> \<exists>msg S' v. refine_call w ?S ev = Inr msg
         \<and> parse_spec w (response_text msg) = Inr S' \<and> validateBrandSpec w S' = Inr v \<and> valid v
         \<and> brand_spec x = Some S'"
    using refine_success_valid [OF r] final xb by auto
  have err: "refine_call w ?S ev = Inl e \<Longrightarrow> brand_spec x = ?S" for e
    using refine_call_error [OF r _ not_ge] kept by auto
  have inv: "refine_call w ?S ev = Inr msg \<and> parse_spec w (response_text msg) = Inr S'
         \<and> validateBrandSpec w S' = Inr v \<and> \<not> valid v \<Longrightarrow> brand_spec x = ?S" for msg S' v
    using refine_invalid_output [OF r _ _ _ _ not_ge] kept by auto
  show ?thesis
    apply (rule exI [of _ c], rule exI [of _ a], rule exI [of _ er], rule exI [of _ r])
    using c a er ev r rr xe xr kept succ err inv
    by (simp (no_asm_simp)) blast
qed

text \<open>The first world, stage by stage, and its run without a progress callback.\<close>

lemma success_ofD:
  "success_of out = Some x \<Longrightarrow> \<exists>s1. out = (Inr (ExtractionSuccess x), s1)"
  by (cases out) (auto simp: success_of_def split: sum.splits result.splits)

lemma example_fields:
  "createBrandDirectories example_world = None"
  "captureWebsite example_world = Inr example_capture"
  "analyzeWithClaude example_world t = Inr (example_analysis 1000)"
  "save_trace example_world = None" "save_metadata example_world = None"
  by (simp_all add: example_world_def)

lemma example_synthesize:
  "synthesizeBrandSpec example_world t =
     \<lparr>status = Warning, artifacts = [''brand_spec.json''], errors = [], metrics = None,
      warnings = Some [''Schema validation issues: 1 errors found''],
      data = Some \<lparr>components = [example_component\<lparr>description := JStr ''Button''\<rparr>],
                    rest = ()\<rparr>\<rparr>"
  by (simp add: synthesizeBrandSpec_def synthesize_counted_def example_world_def
      example_validate_def example_spec_def example_component_def fixValidationIssue_def
      fix_component_def is_digit_def parseInt_def digit_val_def synthesize_save_def Let_def
      toString_1)

lemma example_evaluate:
  "evaluateBrandSpec example_world (Some sp) = Inr example_evaluate_result"
  by (simp add: evaluateBrandSpec_def example_world_def example_evaluate_result_def Let_def)

lemma example_score:
  "overall_score (build_evaluation example_reply n) = Some (Fin (19/5))"
  by (simp add: build_evaluation_def example_reply_def)

lemma example_refine:
  "refineBrandSpec example_world (Some sp) (build_evaluation example_reply n)
     = Inr example_refine_result"
  by (simp add: refineBrandSpec_def example_score example_world_def example_validate_def
      refine_metrics_def refined_example_spec_def example_component_def Let_def
      example_refine_result_def)

lemma example_run:
  "\<exists>x. success_of (extractBrand example_world None (initial_state ())) = Some x
       \<and> brand_spec x = Some refined_example_spec
       \<and> evaluation x = build_evaluation example_reply 2800
       \<and> refinement x = Some example_refine_result"
proof -
  note hp = happy_path [where w = example_world and c = example_capture
      and a = "example_analysis 1000" and er = example_evaluate_result
      and ev = "build_evaluation example_reply 2800" and r = example_refine_result
      and rr = "Some example_refine_result" and final = "Some refined_example_spec"
      and st = "()"]
  show ?thesis
    by (subst hp)
       (simp_all add: example_fields example_synthesize example_evaluate example_score
          example_refine example_capture_def example_analysis_def example_evaluate_result_def
          example_refine_result_def)
qed

text \<open>
  The example run: the evaluation scores 3.8, the refinement succeeds, and the refined
  specification is the one returned.
\<close>

theorem refinement_non_regression_witness:
  "\<exists>x s1. extractBrand example_world None (initial_state ()) = (Inr (ExtractionSuccess x), s1)
     \<and> js_lt (to_number (overall_score (evaluation x))) (9/2)
     \<and> refinement x \<noteq> None
     \<and> brand_spec x = Some refined_example_spec"
proof -
  from example_run obtain x where
    ok: "success_of (extractBrand example_world None (initial_state ())) = Some x"
    and spec: "brand_spec x = Some refined_example_spec"
    and ev: "evaluation x = build_evaluation example_reply 2800"
    by blast
  from success_ofD [OF ok] obtain s1 where
    run: "extractBrand example_world None (initial_state ()) = (Inr (ExtractionSuccess x), s1)"
    by blast
  have low: "js_lt (to_number (overall_score (evaluation x))) (9/2)"
    by (simp add: ev example_score)
  from refinement_non_regression [OF run low]
  have "refinement x \<noteq> None" by auto
  with run low spec show ?thesis by blast
qed

section \<open>Properties of the skip gate and of the trace summary\<close>






















section \<open>Properties of the entry point\<close>

lemma emit_server:
  "emit (Some (server_sink sessionId)) stg msg s
     = (Inr (), s\<lparr>sink_state := onProgress_handler sessionId stg msg (sink_state s)\<rparr>)"
  by (simp add: emit_def server_sink_def)





section \<open>The session registry during a run\<close>

lemma handler_dom:
  "(\<exists>y. onProgress_handler sid stg msg reg sid = Some y) = (\<exists>y. reg sid = Some y)"
  by (simp add: onProgress_handler_def split: option.splits)

lemma running_dom: "registry_running sid evs0 reg \<Longrightarrow> reg sid \<noteq> None"
  by (auto simp: registry_running_def split: option.splits)

lemma handler_progress:
  "reg sid \<noteq> None \<Longrightarrow>
   session_progress (onProgress_handler sid stg msg reg) sid
     = next_progress stg (session_progress reg sid)"
  by (auto simp: session_progress_def onProgress_handler_def
      record_progress_def next_progress_def Let_def split: option.splits)

lemma handler_running:
  assumes "registry_running sid evs0 reg" and "stg \<noteq> StageError" and "stg \<noteq> Complete"
    and "session_progress reg sid \<le> next_progress stg (session_progress reg sid)"
  shows "registry_running sid evs0 (onProgress_handler sid stg msg reg)"
proof -
  from assms(1) obtain session where s: "reg sid = Some session"
    and run: "session_running evs0 session"
    by (auto simp: registry_running_def split: option.splits)
  let ?p = "next_progress stg (progress session)"
  from assms(4) s have le: "progress session \<le> ?p"
    by (simp add: session_progress_def)
  have ev: "events (record_progress stg msg session)
              = events session @ [\<lparr>ev_stage = stg, ev_message = msg, progress_percent = ?p,
                                    ev_brand_id = None\<rparr>]"
    and pr: "progress (record_progress stg msg session) = ?p"
    by (simp_all add: record_progress_def next_progress_def Let_def)
  from run have len: "length evs0 \<le> length (events session)"
    by (metis session_running_def length_take min.cobounded1 min_def nat_le_linear take_all)
  have "session_running evs0 (record_progress stg msg session)"
    using run le len assms(2,3)
    by (auto simp: session_running_def ev pr sorted_append terminal_def list_all_iff)
  with s show ?thesis
    by (simp add: registry_running_def onProgress_handler_def)
qed


lemmas server_steps = prog_defs emit_server handler_dom handler_progress handler_running
  next_progress_def

lemma setup_inv:
  "valid_p (\<lambda>s. sink_state s sid \<noteq> None \<and> registry_running sid evs0 (sink_state s) \<and> session_progress (sink_state s) sid \<le> 5)
     (setup_phase w (Some (server_sink sid)))
     (\<lambda>_ s. sink_state s sid \<noteq> None \<and> registry_running sid evs0 (sink_state s) \<and> session_progress (sink_state s) sid = 5)
     (\<lambda>_ s. sink_state s sid \<noteq> None \<and> registry_running sid evs0 (sink_state s) \<and> session_progress (sink_state s) sid \<le> 100)"
  unfolding setup_phase_def valid_p_def
  by (auto simp: server_steps split: option.splits)

lemma capture_inv:
  "valid_p (\<lambda>s. sink_state s sid \<noteq> None \<and> registry_running sid evs0 (sink_state s) \<and> session_progress (sink_state s) sid = 5)
     (capture_phase w (Some (server_sink sid)))
     (\<lambda>_ s. sink_state s sid \<noteq> None \<and> registry_running sid evs0 (sink_state s) \<and> session_progress (sink_state s) sid = 25)
     (\<lambda>_ s. sink_state s sid \<noteq> None \<and> registry_running sid evs0 (sink_state s) \<and> session_progress (sink_state s) sid \<le> 100)"
  unfolding capture_phase_def valid_p_def
  by (auto simp: server_steps split: sum.splits)

lemma analyze_inv:
  "valid_p (\<lambda>s. sink_state s sid \<noteq> None \<and> registry_running sid evs0 (sink_state s) \<and> session_progress (sink_state s) sid = 25)
     (analyze_phase w (Some (server_sink sid)) c)
     (\<lambda>_ s. sink_state s sid \<noteq> None \<and> registry_running sid evs0 (sink_state s) \<and> session_progress (sink_state s) sid = 50)
     (\<lambda>_ s. sink_state s sid \<noteq> None \<and> registry_running sid evs0 (sink_state s) \<and> session_progress (sink_state s) sid \<le> 100)"
  unfolding analyze_phase_def valid_p_def
  by (auto simp: server_steps split: sum.splits option.splits)

lemma synthesize_inv:
  "valid_p (\<lambda>s. sink_state s sid \<noteq> None \<and> registry_running sid evs0 (sink_state s) \<and> session_progress (sink_state s) sid = 50)
     (synthesize_phase w (Some (server_sink sid)) a)
     (\<lambda>_ s. sink_state s sid \<noteq> None \<and> registry_running sid evs0 (sink_state s) \<and> session_progress (sink_state s) sid = 75)
     (\<lambda>_ s. sink_state s sid \<noteq> None \<and> registry_running sid evs0 (sink_state s) \<and> session_progress (sink_state s) sid \<le> 100)"
  unfolding synthesize_phase_def valid_p_def
  by (auto simp: server_steps split: sum.splits option.splits)

lemma evaluate_inv:
  "valid_p (\<lambda>s. sink_state s sid \<noteq> None \<and> registry_running sid evs0 (sink_state s) \<and> session_progress (sink_state s) sid = 75)
     (evaluate_phase w (Some (server_sink sid)) sy)
     (\<lambda>_ s. sink_state s sid \<noteq> None \<and> registry_running sid evs0 (sink_state s) \<and> session_progress (sink_state s) sid = 90)
     (\<lambda>_ s. sink_state s sid \<noteq> None \<and> registry_running sid evs0 (sink_state s) \<and> session_progress (sink_state s) sid \<le> 100)"
  unfolding evaluate_phase_def valid_p_def
  by (auto simp: server_steps split: sum.splits option.splits)

lemma refine_inv:
  "valid_p (\<lambda>s. sink_state s sid \<noteq> None \<and> registry_running sid evs0 (sink_state s) \<and> session_progress (sink_state s) sid = 90)
     (refine_phase w (Some (server_sink sid)) sy ev)
     (\<lambda>_ s. sink_state s sid \<noteq> None \<and> registry_running sid evs0 (sink_state s) \<and> session_progress (sink_state s) sid = 90)
     (\<lambda>_ s. sink_state s sid \<noteq> None \<and> registry_running sid evs0 (sink_state s) \<and> session_progress (sink_state s) sid \<le> 100)"
  unfolding refine_phase_def valid_p_def
  by (auto simp: server_steps split: sum.splits option.splits)

lemma finalize_inv:
  "valid_p (\<lambda>s. sink_state s sid \<noteq> None \<and> registry_running sid evs0 (sink_state s) \<and> session_progress (sink_state s) sid = 90)
     (finalize_phase w (Some (server_sink sid)) a sy er ev rr final)
     (\<lambda>_ s. sink_state s sid \<noteq> None \<and> registry_running sid evs0 (sink_state s) \<and> session_progress (sink_state s) sid \<le> 100)
     (\<lambda>_ s. sink_state s sid \<noteq> None \<and> registry_running sid evs0 (sink_state s) \<and> session_progress (sink_state s) sid \<le> 100)"
  unfolding finalize_phase_def valid_p_def
  by (auto simp: server_steps split: sum.splits option.splits)

lemma valid_bind:
  assumes "valid_p P m R E" and "\<And>a. valid_p (R a) (f a) Q E"
  shows "valid_p P (bind_p m f) Q E"
  using assms unfolding valid_p_def bind_p_def
  by (fastforce split: prod.splits sum.splits)

lemma pipeline_inv:
  "valid_p (\<lambda>s. sink_state s sid \<noteq> None \<and> registry_running sid evs0 (sink_state s) \<and> session_progress (sink_state s) sid \<le> 5)
     (pipeline w (Some (server_sink sid)))
     (\<lambda>_ s. sink_state s sid \<noteq> None \<and> registry_running sid evs0 (sink_state s) \<and> session_progress (sink_state s) sid \<le> 100)
     (\<lambda>_ s. sink_state s sid \<noteq> None \<and> registry_running sid evs0 (sink_state s) \<and> session_progress (sink_state s) sid \<le> 100)"
  unfolding pipeline_def
  apply (rule valid_bind [OF setup_inv])
  apply (rule valid_bind [OF capture_inv])
  apply (rule valid_bind [OF analyze_inv])
  apply (rule valid_bind [OF synthesize_inv])
  apply (rule valid_bind [OF evaluate_inv])
  apply (simp only: split_def)
  apply (rule valid_bind [OF refine_inv])
  apply (rule finalize_inv)
  done


lemma valid_p_Inr: "valid_p P m Q E \<Longrightarrow> P s \<Longrightarrow> m s = (Inr a, s1) \<Longrightarrow> Q a s1"
  by (auto simp: valid_p_def)

lemma valid_p_Inl: "valid_p P m Q E \<Longrightarrow> P s \<Longrightarrow> m s = (Inl e, s1) \<Longrightarrow> E e s1"
  by (auto simp: valid_p_def)

lemma new_session_running: "session_running [] (new_session :: 'r session)"
  by (simp add: session_running_def new_session_def)

lemma fresh_registry:
  "sink_state (initial_state (reg(sid \<mapsto> new_session))) sid \<noteq> None
   \<and> registry_running sid [] (sink_state (initial_state (reg(sid \<mapsto> new_session))))
   \<and> session_progress (sink_state (initial_state (reg(sid \<mapsto> new_session)))) sid \<le> 5"
  by (simp add: initial_state_def registry_running_def session_progress_def new_session_running)
     (simp add: new_session_def)

text \<open>The state in which the stages of a fresh session end, however they end.\<close>

lemma pipeline_fresh:
  assumes "pipeline w (Some (server_sink sid)) (initial_state (reg(sid \<mapsto> new_session)))
             = (out, s1)"
  shows "\<exists>session1. sink_state s1 sid = Some session1 \<and> session_running [] session1
           \<and> progress session1 \<le> 100"
proof -
  have "sink_state s1 sid \<noteq> None \<and> registry_running sid [] (sink_state s1)
          \<and> session_progress (sink_state s1) sid \<le> 100"
  proof (cases out)
    case (Inl e)
    with assms show ?thesis
      using valid_p_Inl [OF pipeline_inv fresh_registry] by blast
  next
    case (Inr res)
    with assms show ?thesis
      using valid_p_Inr [OF pipeline_inv fresh_registry] by blast
  qed
  then show ?thesis
    by (auto simp: registry_running_def session_progress_def split: option.splits)
qed

text \<open>What the handler of a request leaves in the registry, and the trace of the run.\<close>

lemma post_extract_outcome:
  obtains res s0 reg1 session0 where
    "post_extract w now reg
       = (toString now,
          reg1(toString now \<mapsto>
             finish_session res
               (case res of ExtractionSuccess _ \<Rightarrow> session0
                | ExtractionFailure m \<Rightarrow>
                    record_progress StageError (''Extraction failed: '' @ m) session0)),
          trace_stages s0)"
    and "session_running [] session0" and "progress session0 \<le> 100"
    and "case res of
           ExtractionSuccess _ \<Rightarrow>
             pipeline w (Some (server_sink (toString now)))
               (initial_state (reg(toString now \<mapsto> new_session))) = (Inr res, s0)
         | ExtractionFailure m \<Rightarrow>
             (\<exists>e. pipeline w (Some (server_sink (toString now)))
                    (initial_state (reg(toString now \<mapsto> new_session))) = (Inl e, s0)
                  \<and> m = error_message e)"
proof -
  let ?sid = "toString now"
  let ?s = "initial_state (reg(?sid \<mapsto> new_session))"
  obtain out s0 where run: "pipeline w (Some (server_sink ?sid)) ?s = (out, s0)"
    by (cases "pipeline w (Some (server_sink ?sid)) ?s")
  from pipeline_fresh [OF run] obtain session0 where
    s0: "sink_state s0 ?sid = Some session0" and r0: "session_running [] session0"
    and p0: "progress session0 \<le> 100"
    by blast
  show thesis
  proof (cases out)
    case (Inl e)
    let ?m = "error_message e"
    let ?s1 = "s0\<lparr>sink_state := onProgress_handler ?sid StageError
                                   (''Extraction failed: '' @ ?m) (sink_state s0)\<rparr>"
    have eq: "post_extract w now reg
       = (?sid, (sink_state ?s1)(?sid \<mapsto> finish_session (ExtractionFailure ?m)
             (case ExtractionFailure ?m of ExtractionSuccess _ \<Rightarrow> session0
                | ExtractionFailure m \<Rightarrow>
                    record_progress StageError (''Extraction failed: '' @ m) session0)),
          trace_stages s0)"
      using run Inl s0
      by (simp add: post_extract_def create_session_def run_extraction_def extractBrand_def
          try_catch_def bind_p_def return_p_def emit_server then_handler_def
          onProgress_handler_def initial_state_def Let_def)
    show ?thesis
      by (rule that [OF eq r0 p0]) (use run Inl in auto)
  next
    case (Inr res)
    with run have ok: "pipeline w (Some (server_sink ?sid)) ?s = (Inr res, s0)" by simp
    from pipeline_Inr [OF ok] obtain x where x: "res = ExtractionSuccess x"
      by (auto simp: initial_state_def)
    have eq: "post_extract w now reg
       = (?sid, (sink_state s0)(?sid \<mapsto> finish_session res session0), trace_stages s0)" (is "_ = ?rhs")
      using ok s0
      by (simp add: post_extract_def create_session_def run_extraction_def extractBrand_def
          try_catch_def then_handler_def initial_state_def Let_def)
    have eq': "post_extract w now reg
       = (?sid, (sink_state s0)(?sid \<mapsto> finish_session res
             (case res of ExtractionSuccess _ \<Rightarrow> session0
                | ExtractionFailure m \<Rightarrow>
                    record_progress StageError (''Extraction failed: '' @ m) session0)),
          trace_stages s0)"
      using eq x by simp
    show ?thesis
      by (rule that [OF eq' r0 p0]) (use ok x in auto)
  qed
qed

section \<open>The event log of a session\<close>






section \<open>Runs that fail\<close>

text \<open>The session of a request whose stages threw an error.\<close>

lemma failed_run:
  assumes "fst (pipeline w (Some (server_sink (toString now)))
             (initial_state (activeSessions(toString now \<mapsto> new_session)))) = Inl e"
  obtains reg1 session0 where
    "post_extract w now activeSessions
       = (toString now,
          reg1(toString now \<mapsto>
             finish_session (ExtractionFailure (error_message e))
               (record_progress StageError (''Extraction failed: '' @ error_message e)
                  session0)),
          trace_stages (snd (pipeline w (Some (server_sink (toString now)))
             (initial_state (activeSessions(toString now \<mapsto> new_session))))))"
    and "session_running [] session0"
proof -
  obtain res s0 reg1 session0 where
    eq: "post_extract w now activeSessions
       = (toString now,
          reg1(toString now \<mapsto>
             finish_session res
               (case res of ExtractionSuccess _ \<Rightarrow> session0
                | ExtractionFailure m \<Rightarrow>
                    record_progress StageError (''Extraction failed: '' @ m) session0)),
          trace_stages s0)"
    and r0: "session_running [] session0" and p0: "progress session0 \<le> 100"
    and run: "case res of
           ExtractionSuccess _ \<Rightarrow>
             pipeline w (Some (server_sink (toString now)))
               (initial_state (activeSessions(toString now \<mapsto> new_session))) = (Inr res, s0)
         | ExtractionFailure m \<Rightarrow>
             (\<exists>e. pipeline w (Some (server_sink (toString now)))
                    (initial_state (activeSessions(toString now \<mapsto> new_session)))
                      = (Inl e, s0)
                  \<and> m = error_message e)"
    by (rule post_extract_outcome [of w now activeSessions])
  from run assms have res: "res = ExtractionFailure (error_message e)"
    and s0: "snd (pipeline w (Some (server_sink (toString now)))
               (initial_state (activeSessions(toString now \<mapsto> new_session)))) = s0"
    by (auto split: result.splits)
  show thesis
    by (rule that [OF _ r0]) (simp add: eq res s0)
qed









text \<open>
  When the capture or the analysis returns a failed result, the stages throw, and the trace
  has at most the entries of these two stages.
\<close>

lemma early_failure:
  assumes "captureWebsite w = Inr c"
    and "status c = Failed \<or> (\<exists>a. analyzeWithClaude w (data c) = Inr a \<and> status a = Failed)"
    and "list_all (\<lambda>en. st_name en = ''capture'' \<or> st_name en = ''analyze'') (trace_stages s)"
  shows "\<exists>e. fst (pipeline w (Some (server_sink sid)) s) = Inl e"
    and "list_all (\<lambda>en. st_name en = ''capture'' \<or> st_name en = ''analyze'')
           (trace_stages (snd (pipeline w (Some (server_sink sid)) s)))"
  using assms
  by (auto simp: pipeline_def setup_phase_def capture_phase_def analyze_phase_def prog_defs
      emit_server stage_entry_def split: option.splits)

text \<open>
  Claim C4. When the capture returns a result of status \<^verbatim>\<open>failed\<close>, or the analysis does on
  the data of the capture, the trace of the run has no entry of the stages \<^verbatim>\<open>synthesize\<close>,
  \<^verbatim>\<open>evaluate\<close> and \<^verbatim>\<open>refine\<close>, and the session of the run ends with the status \<^verbatim>\<open>failed\<close>.
\<close>

theorem stage_failure_short_circuit:
  assumes "captureWebsite w = Inr c"
    and "status c = Failed \<or> (\<exists>a. analyzeWithClaude w (data c) = Inr a \<and> status a = Failed)"
  shows "list_all (\<lambda>en. st_name en \<noteq> ''synthesize'' \<and> st_name en \<noteq> ''evaluate''
                        \<and> st_name en \<noteq> ''refine'')
           (snd (snd (post_extract w now activeSessions)))
       \<and> session_status (fst (snd (post_extract w now activeSessions)))
           (fst (post_extract w now activeSessions)) = Some ''failed''"
proof -
  let ?s = "initial_state (activeSessions(toString now \<mapsto> new_session))"
  have start: "list_all (\<lambda>en. st_name en = ''capture'' \<or> st_name en = ''analyze'')
                 (trace_stages ?s)"
    by (simp add: initial_state_def)
  from early_failure(1) [OF assms start] obtain e where
    fails: "fst (pipeline w (Some (server_sink (toString now))) ?s) = Inl e"
    by blast
  from fails obtain reg1 session0 where
    eq: "post_extract w now activeSessions
       = (toString now,
          reg1(toString now \<mapsto>
             finish_session (ExtractionFailure (error_message e))
               (record_progress StageError (''Extraction failed: '' @ error_message e)
                  session0)),
          trace_stages (snd (pipeline w (Some (server_sink (toString now))) ?s)))"
    and r0: "session_running [] session0"
    by (rule failed_run)
  from early_failure(2) [OF assms start, of "toString now"]
  have "list_all (\<lambda>en. st_name en \<noteq> ''synthesize'' \<and> st_name en \<noteq> ''evaluate''
                        \<and> st_name en \<noteq> ''refine'')
           (trace_stages (snd (pipeline w (Some (server_sink (toString now))) ?s)))"
    by (auto simp: list_all_iff)
  then show ?thesis
    by (simp add: eq session_status_def finish_session_def)
qed

lemma analysis_failed_fields:
  "captureWebsite analysis_failed_world = Inr example_capture"
  "analyzeWithClaude analysis_failed_world (data example_capture)
     = Inr \<lparr>status = Failed, artifacts = [],
            errors = [\<lparr>code = ''ANALYSIS_ERROR'',
                       err_message = ''No screenshots available for analysis'',
                       recoverable = False\<rparr>],
            metrics = Some \<lparr>tokens_input = 0, tokens_output = 0, api_calls = Some 1,
                             improvements_made = None\<rparr>,
            warnings = None, data = None\<rparr>"
  by (simp_all add: analysis_failed_world_def example_world_def)

text \<open>A run whose analysis finds no screenshots.\<close>

theorem stage_failure_short_circuit_witness:
  "captureWebsite analysis_failed_world = Inr example_capture
   \<and> (status example_capture = Failed
        \<or> (\<exists>a. analyzeWithClaude analysis_failed_world (data example_capture) = Inr a
                \<and> status a = Failed))
   \<and> list_all (\<lambda>en. st_name en \<noteq> ''synthesize'' \<and> st_name en \<noteq> ''evaluate''
                        \<and> st_name en \<noteq> ''refine'')
       (snd (snd (post_extract analysis_failed_world 1700000000000
                    (Map.empty :: unit registry))))
   \<and> session_status (fst (snd (post_extract analysis_failed_world 1700000000000
                                   (Map.empty :: unit registry))))
        (fst (post_extract analysis_failed_world 1700000000000 (Map.empty :: unit registry)))
       = Some ''failed''"
proof -
  have hyp: "status example_capture = Failed
        \<or> (\<exists>a. analyzeWithClaude analysis_failed_world (data example_capture) = Inr a
                \<and> status a = Failed)"
    by (simp add: analysis_failed_fields(2))
  from stage_failure_short_circuit [OF analysis_failed_fields(1) hyp, of 1700000000000 Map.empty]
    analysis_failed_fields(1) hyp
  show ?thesis
    by blast
qed

end
